theory Spec2Isabelle
  imports Complex_Main "HOL-Library.AList"
begin

section \<open>JavaScript values used by the part analyzer\<close>

text \<open>
  Numbers. The analyzer reads coordinates with \<^verbatim>\<open>parseFloat\<close> and compares and
  subtracts them. A number is modelled as an exact rational, one of the two infinities, or
  NaN; the decimal literal a token spells is taken exactly, so the rounding of IEEE doubles
  (and the overflow of a huge literal to Infinity) is outside the model. Comparisons with
  NaN are false, as in the language.
\<close>

datatype jsnum = NaN | NegInf | Fin rat | PosInf

fun js_lt :: "jsnum \<Rightarrow> jsnum \<Rightarrow> bool" where
  "js_lt NaN _ = False"
| "js_lt _ NaN = False"
| "js_lt NegInf NegInf = False"
| "js_lt NegInf _ = True"
| "js_lt (Fin a) (Fin b) = (a < b)"
| "js_lt (Fin a) PosInf = True"
| "js_lt (Fin a) NegInf = False"
| "js_lt PosInf _ = False"

definition js_gt :: "jsnum \<Rightarrow> jsnum \<Rightarrow> bool" where
  "js_gt a b = js_lt b a"

definition Math_min :: "jsnum \<Rightarrow> jsnum \<Rightarrow> jsnum" where
  "Math_min a b = (if a = NaN \<or> b = NaN then NaN else if js_lt b a then b else a)"

definition Math_max :: "jsnum \<Rightarrow> jsnum \<Rightarrow> jsnum" where
  "Math_max a b = (if a = NaN \<or> b = NaN then NaN else if js_lt a b then b else a)"

fun js_neg :: "jsnum \<Rightarrow> jsnum" where
  "js_neg NaN = NaN"
| "js_neg NegInf = PosInf"
| "js_neg (Fin a) = Fin (- a)"
| "js_neg PosInf = NegInf"

fun js_add :: "jsnum \<Rightarrow> jsnum \<Rightarrow> jsnum" where
  "js_add NaN _ = NaN"
| "js_add _ NaN = NaN"
| "js_add (Fin a) (Fin b) = Fin (a + b)"
| "js_add (Fin a) b = b"
| "js_add a (Fin b) = a"
| "js_add a b = (if a = b then a else NaN)"

definition js_sub :: "jsnum \<Rightarrow> jsnum \<Rightarrow> jsnum" where
  "js_sub a b = js_add a (js_neg b)"

fun js_half :: "jsnum \<Rightarrow> jsnum" where
  "js_half (Fin a) = Fin (a / 2)"
| "js_half a = a"

text \<open>
  The argument of \<^verbatim>\<open>analyzeOBJ\<close> is any value of the language; only its
  truthiness and its \<^verbatim>\<open>typeof\<close> are inspected before it is used as a string.
\<close>

datatype jsval =
    JUndefined
  | JNull
  | JBoolean bool
  | JNumber jsnum
  | JString string
  | JObject

fun truthy :: "jsval \<Rightarrow> bool" where
  "truthy JUndefined = False"
| "truthy JNull = False"
| "truthy (JBoolean b) = b"
| "truthy (JNumber n) = (n \<noteq> NaN \<and> n \<noteq> Fin 0)"
| "truthy (JString s) = (s \<noteq> [])"
| "truthy JObject = True"

fun typeof :: "jsval \<Rightarrow> string" where
  "typeof JUndefined = ''undefined''"
| "typeof JNull = ''object''"
| "typeof (JBoolean b) = ''boolean''"
| "typeof (JNumber n) = ''number''"
| "typeof (JString s) = ''string''"
| "typeof JObject = ''object''"

subsection \<open>Strings\<close>

text \<open>
  A string is a list of bytes. White space is the ASCII white space (tab, line feed,
  vertical tab, form feed, carriage return, space); the language's further Unicode
  white space is not modelled.
\<close>

definition is_space :: "char \<Rightarrow> bool" where
  "is_space c = (c \<in> set [CHR 0x09, CHR 0x0A, CHR 0x0B, CHR 0x0C, CHR 0x0D, CHR 0x20])"

definition trim :: "string \<Rightarrow> string" where
  "trim s = rev (dropWhile is_space (rev (dropWhile is_space s)))"

text \<open>\<^verbatim>\<open>s.split(c)\<close> for a one-character separator.\<close>

fun split_char :: "char \<Rightarrow> string \<Rightarrow> string list" where
  "split_char c [] = [[]]"
| "split_char c (a # as) =
     (if a = c then [] # split_char c as
      else (case split_char c as of
              [] \<Rightarrow> [[a]]
            | w # ws \<Rightarrow> (a # w) # ws))"

text \<open>\<^verbatim>\<open>s.split(/\s+/)\<close>: a maximal run of white space separates two fields.\<close>

fun split_ws :: "string \<Rightarrow> string list" where
  "split_ws [] = [[]]"
| "split_ws (a # as) =
     (if is_space a then
        (case as of
           [] \<Rightarrow> [] # split_ws as
         | b # bs \<Rightarrow> (if is_space b then split_ws as else [] # split_ws as))
      else (case split_ws as of
              [] \<Rightarrow> [[a]]
            | w # ws \<Rightarrow> (a # w) # ws))"

text \<open>\<^verbatim>\<open>xs.join(' ')\<close>.\<close>

fun join_sp :: "string list \<Rightarrow> string" where
  "join_sp [] = []"
| "join_sp [w] = w"
| "join_sp (w # ws) = w @ '' '' @ join_sp ws"

definition startsWith :: "string \<Rightarrow> string \<Rightarrow> bool" where
  "startsWith s p = (take (length p) s = p)"

fun includes_str :: "string \<Rightarrow> string \<Rightarrow> bool" where
  "includes_str [] p = (p = [])"
| "includes_str (a # as) p = (startsWith (a # as) p \<or> includes_str as p)"

definition lower_char :: "char \<Rightarrow> char" where
  "lower_char c =
     (let n = (of_char c :: nat) in if 65 \<le> n \<and> n \<le> 90 then char_of (n + 32) else c)"

definition toLowerCase :: "string \<Rightarrow> string" where
  "toLowerCase s = map lower_char s"

subsection \<open>Digits and numerals\<close>

definition is_digit :: "char \<Rightarrow> bool" where
  "is_digit c = (let n = (of_char c :: nat) in 48 \<le> n \<and> n \<le> 57)"

definition digit_val :: "char \<Rightarrow> nat" where
  "digit_val c = (of_char c :: nat) - 48"

definition digits_value :: "string \<Rightarrow> nat" where
  "digits_value ds = foldl (\<lambda>acc c. 10 * acc + digit_val c) 0 ds"

definition is_hex_digit :: "char \<Rightarrow> bool" where
  "is_hex_digit c =
     (let n = (of_char c :: nat)
      in (48 \<le> n \<and> n \<le> 57) \<or> (65 \<le> n \<and> n \<le> 70) \<or> (97 \<le> n \<and> n \<le> 102))"

definition hex_val :: "char \<Rightarrow> nat" where
  "hex_val c =
     (let n = (of_char c :: nat)
      in if n \<le> 57 then n - 48 else if n \<le> 70 then n - 55 else n - 87)"

definition hex_value :: "string \<Rightarrow> nat" where
  "hex_value ds = foldl (\<lambda>acc c. 16 * acc + hex_val c) 0 ds"

definition digit_char :: "nat \<Rightarrow> char" where
  "digit_char d = char_of (48 + d)"

text \<open>\<^verbatim>\<open>n.toString()\<close> for a natural number: its decimal digits.\<close>

function toString_nat :: "nat \<Rightarrow> string" where
  "toString_nat n =
     (if n < 10 then [digit_char n] else toString_nat (n div 10) @ [digit_char (n mod 10)])"
  by pat_completeness auto
termination
  by (relation "measure (\<lambda>n. n)") auto

declare toString_nat.simps [simp del]

definition padStart :: "nat \<Rightarrow> char \<Rightarrow> string \<Rightarrow> string" where
  "padStart n c s = replicate (n - length s) c @ s"

text \<open>
  \<^verbatim>\<open>parseInt(s)\<close> without a radix: leading white space, an optional sign, an optional
  \<^verbatim>\<open>0x\<close> prefix, then the longest run of digits of the radix; no digit gives NaN,
  which is \<open>None\<close> here. The integer is exact.
\<close>

definition parseInt :: "string \<Rightarrow> int option" where
  "parseInt s =
     (let s1 = dropWhile is_space s;
          neg = (s1 \<noteq> [] \<and> hd s1 = CHR ''-'');
          s2 = (if s1 \<noteq> [] \<and> (hd s1 = CHR ''+'' \<or> hd s1 = CHR ''-'') then tl s1 else s1);
          hex = (take 2 s2 = ''0x'' \<or> take 2 s2 = ''0X'');
          ds = (if hex then takeWhile is_hex_digit (drop 2 s2) else takeWhile is_digit s2);
          m = (if hex then hex_value ds else digits_value ds)
      in if ds = [] then None
         else Some (if neg then - int m else int m))"

text \<open>
  \<^verbatim>\<open>parseFloat(s)\<close>: leading white space, an optional sign, then \<^verbatim>\<open>Infinity\<close> or
  the longest decimal literal (digits, an optional fraction, an optional exponent that
  has at least one digit).
\<close>

definition exponent_part :: "string \<Rightarrow> int" where
  "exponent_part r =
     (if r \<noteq> [] \<and> (hd r = CHR ''e'' \<or> hd r = CHR ''E'') then
        (let r1 = tl r;
             eneg = (r1 \<noteq> [] \<and> hd r1 = CHR ''-'');
             r2 = (if r1 \<noteq> [] \<and> (hd r1 = CHR ''+'' \<or> hd r1 = CHR ''-'') then tl r1 else r1);
             es = takeWhile is_digit r2
         in if eneg then - int (digits_value es) else int (digits_value es))
      else 0)"

definition scale10 :: "rat \<Rightarrow> int \<Rightarrow> rat" where
  "scale10 m e = (if 0 \<le> e then m * 10 ^ nat e else m / 10 ^ nat (- e))"

definition parseFloat :: "string \<Rightarrow> jsnum" where
  "parseFloat s =
     (let s1 = dropWhile is_space s;
          neg = (s1 \<noteq> [] \<and> hd s1 = CHR ''-'');
          s2 = (if s1 \<noteq> [] \<and> (hd s1 = CHR ''+'' \<or> hd s1 = CHR ''-'') then tl s1 else s1)
      in if startsWith s2 ''Infinity'' then (if neg then NegInf else PosInf)
         else
           (let d1 = takeWhile is_digit s2;
                r1 = dropWhile is_digit s2;
                dot = (r1 \<noteq> [] \<and> hd r1 = CHR ''.'');
                d2 = (if dot then takeWhile is_digit (tl r1) else []);
                r2 = (if dot then dropWhile is_digit (tl r1) else r1);
                m = scale10 (of_nat (digits_value (d1 @ d2))) (exponent_part r2 - int (length d2))
            in if d1 = [] \<and> d2 = [] then NaN
               else Fin (if neg then - m else m)))"

definition isNaN :: "jsnum \<Rightarrow> bool" where
  "isNaN n = (n = NaN)"

definition nth_opt :: "'a list \<Rightarrow> nat \<Rightarrow> 'a option" where
  "nth_opt xs i = (if i < length xs then Some (xs ! i) else None)"

section \<open>The part analyzer (part-analyzer.js)\<close>

subsection \<open>Data\<close>

record vec3 =
  x_v :: jsnum
  y_v :: jsnum
  z_v :: jsnum

record texcoord =
  u_t :: jsnum
  v_t :: jsnum

text \<open>
  One corner of a face. \<open>vertexIndex\<close> is stored only after it passed the check of
  \<^verbatim>\<open>handleFace\<close>, so it is an integer; the two optional indices may be NaN (\<open>None\<close>).
\<close>

record faceVertex =
  vertexIndex :: int
  textureIndex :: "int option"
  normalIndex :: "int option"

record bbox =
  min_b :: vec3
  max_b :: vec3

record part =
  name :: string
  vertices :: "vec3 list"
  normals :: "vec3 list"
  textureCoords :: "texcoord list"
  faces :: "faceVertex list list"
  material :: "string option"
  boundingBox :: "bbox option"
  center :: "vec3 option"
  size_p :: "vec3 option"
  partNumber :: string
  type_p :: string

text \<open>
  The analyzer object: the parts accepted so far and the part that is open. (Its fields
  \<^verbatim>\<open>materials\<close> and \<^verbatim>\<open>currentMaterial\<close> are only initialised, never read.)
\<close>

record analyzer =
  parts :: "part list"
  currentPart :: "part option"

datatype error =
    InvalidVertexCoordinate nat
  | InvalidNormalCoordinate nat
  | InvalidTextureCoordinate nat
  | InvalidFaceVertexIndex nat

subsection \<open>Part numbers and part types\<close>

definition generatePartNumber :: "analyzer \<Rightarrow> string" where
  "generatePartNumber s =
     (let partCount = length (parts s) + 1
      in ''P-'' @ padStart 3 (CHR ''0'') (toString_nat partCount))"

definition detectPartType :: "string \<Rightarrow> string" where
  "detectPartType nm =
     (if nm = [] then ''Unknown''
      else
        (let lowerName = toLowerCase nm
         in if includes_str lowerName ''pipe'' \<or> includes_str lowerName ''tube'' then ''Pipe''
            else if includes_str lowerName ''flange'' then ''Flange''
            else if includes_str lowerName ''elbow'' \<or> includes_str lowerName ''bend'' then ''Elbow''
            else if includes_str lowerName ''tee'' \<or> includes_str lowerName ''t-joint'' then ''Tee''
            else if includes_str lowerName ''valve'' then ''Valve''
            else if includes_str lowerName ''fitting'' then ''Fitting''
            else if includes_str lowerName ''support'' \<or> includes_str lowerName ''bracket''
              then ''Support''
            else if includes_str lowerName ''gasket'' \<or> includes_str lowerName ''seal''
              then ''Gasket''
            else if includes_str lowerName ''bolt'' \<or> includes_str lowerName ''screw''
              then ''Fastener''
            else if includes_str lowerName ''nut'' then ''Nut''
            else ''Component''))"

subsection \<open>Bounding box, validation, finalisation\<close>

text \<open>The loop of \<^verbatim>\<open>calculateBoundingBox\<close>, one vertex at a time.\<close>

definition bbox_step :: "vec3 \<Rightarrow> bbox \<Rightarrow> bbox" where
  "bbox_step vertex b =
     \<lparr>min_b = \<lparr>x_v = Math_min (x_v (min_b b)) (x_v vertex),
               y_v = Math_min (y_v (min_b b)) (y_v vertex),
               z_v = Math_min (z_v (min_b b)) (z_v vertex)\<rparr>,
      max_b = \<lparr>x_v = Math_max (x_v (max_b b)) (x_v vertex),
               y_v = Math_max (y_v (max_b b)) (y_v vertex),
               z_v = Math_max (z_v (max_b b)) (z_v vertex)\<rparr>\<rparr>"

definition bbox_init :: bbox where
  "bbox_init = \<lparr>min_b = \<lparr>x_v = PosInf, y_v = PosInf, z_v = PosInf\<rparr>,
                max_b = \<lparr>x_v = NegInf, y_v = NegInf, z_v = NegInf\<rparr>\<rparr>"

definition calculateBoundingBox :: "part \<Rightarrow> part" where
  "calculateBoundingBox p =
     (if vertices p = [] then p
      else
        (let b = fold bbox_step (vertices p) bbox_init;
             mn = min_b b; mx = max_b b
         in p\<lparr>boundingBox := Some b,
              center := Some \<lparr>x_v = js_half (js_add (x_v mn) (x_v mx)),
                              y_v = js_half (js_add (y_v mn) (y_v mx)),
                              z_v = js_half (js_add (z_v mn) (z_v mx))\<rparr>,
              size_p := Some \<lparr>x_v = js_sub (x_v mx) (x_v mn),
                              y_v = js_sub (y_v mx) (y_v mn),
                              z_v = js_sub (z_v mx) (z_v mn)\<rparr>\<rparr>))"

text \<open>
  \<^verbatim>\<open>validatePart\<close>. The conjunction is evaluated left to right; \<^verbatim>\<open>part.size\<close> is read
  only when the bounding box is set, and \<^verbatim>\<open>calculateBoundingBox\<close> sets both together.
\<close>

definition validatePart :: "part \<Rightarrow> bool" where
  "validatePart p =
     (length (vertices p) > 0 \<and>
      length (faces p) > 0 \<and>
      boundingBox p \<noteq> None \<and>
      (case size_p p of
         None \<Rightarrow> False
       | Some sz \<Rightarrow> js_gt (x_v sz) (Fin 0) \<and> js_gt (y_v sz) (Fin 0) \<and> js_gt (z_v sz) (Fin 0)))"

definition finalizePart :: "analyzer \<Rightarrow> analyzer" where
  "finalizePart s =
     (case currentPart s of
        None \<Rightarrow> s
      | Some p \<Rightarrow>
          if length (vertices p) = 0 then s
          else
            (let p' = calculateBoundingBox p;
                 s' = (if validatePart p' then s\<lparr>parts := parts s @ [p']\<rparr> else s)
             in s'\<lparr>currentPart := None\<rparr>))"

subsection \<open>Line handlers\<close>

text \<open>The object literal with which \<^verbatim>\<open>handleObjectName\<close> starts a part.\<close>

definition newPart :: "string \<Rightarrow> analyzer \<Rightarrow> part" where
  "newPart nm s =
     \<lparr>name = (if nm \<noteq> [] then nm else ''Part_'' @ toString_nat (length (parts s) + 1)),
      vertices = [],
      normals = [],
      textureCoords = [],
      faces = [],
      material = None,
      boundingBox = None,
      center = None,
      size_p = None,
      partNumber = generatePartNumber s,
      type_p = detectPartType nm\<rparr>"

definition handleObjectName :: "string \<Rightarrow> analyzer \<Rightarrow> analyzer" where
  "handleObjectName nm s =
     (let s1 = (if currentPart s \<noteq> None then finalizePart s else s)
      in s1\<lparr>currentPart := Some (newPart nm s1)\<rparr>)"

definition handleGroupName :: "string \<Rightarrow> analyzer \<Rightarrow> analyzer" where
  "handleGroupName nm s =
     (case currentPart s of
        None \<Rightarrow> handleObjectName nm s
      | Some p \<Rightarrow>
          if nm \<noteq> [] \<and> nm \<noteq> name p then handleObjectName nm (finalizePart s)
          else s)"

definition handleMaterialUsage :: "string option \<Rightarrow> analyzer \<Rightarrow> analyzer" where
  "handleMaterialUsage materialName s =
     (case currentPart s of
        None \<Rightarrow> s
      | Some p \<Rightarrow>
          s\<lparr>currentPart := Some (p\<lparr>material :=
               Some (case materialName of
                       None \<Rightarrow> ''default''
                     | Some m \<Rightarrow> if m \<noteq> [] then m else ''default'')\<rparr>)\<rparr>)"

text \<open>
  \<^verbatim>\<open>coords.map(coord => ...)\<close> of the three coordinate handlers: every token of the
  line is parsed, and the first one that is not a number throws.
\<close>

fun parseCoords :: "error \<Rightarrow> string list \<Rightarrow> error + jsnum list" where
  "parseCoords e [] = Inr []"
| "parseCoords e (coord # cs) =
     (let value = parseFloat coord
      in if isNaN value then Inl e
         else (case parseCoords e cs of
                 Inl e' \<Rightarrow> Inl e'
               | Inr vs \<Rightarrow> Inr (value # vs)))"

definition handleVertex :: "string list \<Rightarrow> nat \<Rightarrow> analyzer \<Rightarrow> error + analyzer" where
  "handleVertex coords lineNumber s =
     (case currentPart s of
        None \<Rightarrow> Inr s
      | Some p \<Rightarrow>
          if length coords \<ge> 3 then
            (case parseCoords (InvalidVertexCoordinate lineNumber) coords of
               Inl e \<Rightarrow> Inl e
             | Inr vs \<Rightarrow>
                 Inr (s\<lparr>currentPart := Some (p\<lparr>vertices := vertices p @
                        [\<lparr>x_v = vs ! 0, y_v = vs ! 1, z_v = vs ! 2\<rparr>]\<rparr>)\<rparr>))
          else Inr s)"

definition handleNormal :: "string list \<Rightarrow> nat \<Rightarrow> analyzer \<Rightarrow> error + analyzer" where
  "handleNormal coords lineNumber s =
     (case currentPart s of
        None \<Rightarrow> Inr s
      | Some p \<Rightarrow>
          if length coords \<ge> 3 then
            (case parseCoords (InvalidNormalCoordinate lineNumber) coords of
               Inl e \<Rightarrow> Inl e
             | Inr vs \<Rightarrow>
                 Inr (s\<lparr>currentPart := Some (p\<lparr>normals := normals p @
                        [\<lparr>x_v = vs ! 0, y_v = vs ! 1, z_v = vs ! 2\<rparr>]\<rparr>)\<rparr>))
          else Inr s)"

definition handleTextureCoord :: "string list \<Rightarrow> nat \<Rightarrow> analyzer \<Rightarrow> error + analyzer" where
  "handleTextureCoord coords lineNumber s =
     (case currentPart s of
        None \<Rightarrow> Inr s
      | Some p \<Rightarrow>
          if length coords \<ge> 2 then
            (case parseCoords (InvalidTextureCoordinate lineNumber) coords of
               Inl e \<Rightarrow> Inl e
             | Inr vs \<Rightarrow>
                 Inr (s\<lparr>currentPart := Some (p\<lparr>textureCoords := textureCoords p @
                        [\<lparr>u_t = vs ! 0, v_t = vs ! 1\<rparr>]\<rparr>)\<rparr>))
          else Inr s)"

text \<open>
  One face corner \<^verbatim>\<open>v[/vt][/vn]\<close>. \<^verbatim>\<open>indices[1] ? parseInt(indices[1]) - 1 : -1\<close>:
  a missing or empty field gives \<open>-1\<close>, a field that is not a number gives NaN.
\<close>

definition optionalIndex :: "string option \<Rightarrow> int option" where
  "optionalIndex f =
     (case f of
        None \<Rightarrow> Some (- 1)
      | Some t \<Rightarrow> if t = [] then Some (- 1) else map_option (\<lambda>k. k - 1) (parseInt t))"

definition parseFaceVertex :: "nat \<Rightarrow> string \<Rightarrow> error + faceVertex" where
  "parseFaceVertex lineNumber vertexData =
     (let indices = split_char (CHR ''/'') vertexData
      in case parseInt (hd indices) of
           None \<Rightarrow> Inl (InvalidFaceVertexIndex lineNumber)
         | Some vi \<Rightarrow>
             if vi < 1 then Inl (InvalidFaceVertexIndex lineNumber)
             else Inr \<lparr>vertexIndex = vi - 1,
                       textureIndex = optionalIndex (nth_opt indices 1),
                       normalIndex = optionalIndex (nth_opt indices 2)\<rparr>)"

fun parseFace :: "nat \<Rightarrow> string list \<Rightarrow> error + faceVertex list" where
  "parseFace lineNumber [] = Inr []"
| "parseFace lineNumber (vertexData # rest) =
     (case parseFaceVertex lineNumber vertexData of
        Inl e \<Rightarrow> Inl e
      | Inr fv \<Rightarrow>
          (case parseFace lineNumber rest of
             Inl e \<Rightarrow> Inl e
           | Inr fvs \<Rightarrow> Inr (fv # fvs)))"

definition handleFace :: "string list \<Rightarrow> nat \<Rightarrow> analyzer \<Rightarrow> error + analyzer" where
  "handleFace faceData lineNumber s =
     (case currentPart s of
        None \<Rightarrow> Inr s
      | Some p \<Rightarrow>
          if length faceData \<ge> 3 then
            (case parseFace lineNumber faceData of
               Inl e \<Rightarrow> Inl e
             | Inr face \<Rightarrow> Inr (s\<lparr>currentPart := Some (p\<lparr>faces := faces p @ [face]\<rparr>)\<rparr>))
          else Inr s)"

definition handleMaterialLibrary :: "string option \<Rightarrow> analyzer \<Rightarrow> analyzer" where
  "handleMaterialLibrary libName s = s"

subsection \<open>The scan\<close>

text \<open>The \<^verbatim>\<open>switch\<close> on the first token; an unknown command does nothing.\<close>

definition dispatch :: "string list \<Rightarrow> nat \<Rightarrow> analyzer \<Rightarrow> error + analyzer" where
  "dispatch ps lineNumber s =
     (let command = hd ps
      in if command = ''o'' then Inr (handleObjectName (join_sp (tl ps)) s)
         else if command = ''g'' then Inr (handleGroupName (join_sp (tl ps)) s)
         else if command = ''usemtl'' then Inr (handleMaterialUsage (nth_opt ps 1) s)
         else if command = ''v'' then handleVertex (tl ps) lineNumber s
         else if command = ''vn'' then handleNormal (tl ps) lineNumber s
         else if command = ''vt'' then handleTextureCoord (tl ps) lineNumber s
         else if command = ''f'' then handleFace (tl ps) lineNumber s
         else if command = ''mtllib'' then Inr (handleMaterialLibrary (nth_opt ps 1) s)
         else Inr s)"

text \<open>
  The body of the \<^verbatim>\<open>for\<close> loop: blank lines and comments are skipped; an error thrown
  by a handler is caught and logged, and the handlers throw before they change anything,
  so the state of the line before stays.
\<close>

definition processLine :: "nat \<Rightarrow> string \<Rightarrow> analyzer \<Rightarrow> analyzer" where
  "processLine lineNumber line s =
     (let trimmedLine = trim line
      in if trimmedLine = [] \<or> startsWith trimmedLine ''#'' then s
         else (case dispatch (split_ws trimmedLine) lineNumber s of
                 Inl e \<Rightarrow> s
               | Inr s' \<Rightarrow> s'))"

fun scanLines :: "string list \<Rightarrow> nat \<Rightarrow> analyzer \<Rightarrow> analyzer" where
  "scanLines [] lineNumber s = s"
| "scanLines (line # rest) lineNumber s =
     scanLines rest (Suc lineNumber) (processLine (Suc lineNumber) line s)"

definition analyzer_init :: analyzer where
  "analyzer_init = \<lparr>parts = [], currentPart = None\<rparr>"

text \<open>The analyzer after the loop over the lines of a text, before the last finalisation.\<close>

definition scanText :: "string \<Rightarrow> analyzer" where
  "scanText objContent = scanLines (split_char (CHR ''\<newline>'') objContent) 0 analyzer_init"

definition string_of :: "jsval \<Rightarrow> string" where
  "string_of v = (case v of JString s \<Rightarrow> s | _ \<Rightarrow> [])"

text \<open>
  \<^verbatim>\<open>analyzeOBJ\<close>. The analyzer's fields are reset before the scan, so the result depends
  on the argument only.
\<close>

definition analyzeOBJ :: "jsval \<Rightarrow> part list" where
  "analyzeOBJ objContent =
     (if \<not> truthy objContent \<or> typeof objContent \<noteq> ''string'' then []
      else
        (let s = scanText (string_of objContent);
             s' = (if currentPart s \<noteq> None then finalizePart s else s)
         in parts s'))"

section \<open>The part manager (part-manager.js)\<close>

subsection \<open>Data\<close>

text \<open>
  The manager keys everything by the part number (its map \<^verbatim>\<open>parts\<close> is the field
  \<open>partsMap\<close> here, the analyzer having a field \<open>parts\<close> already). Its \<^verbatim>\<open>Map\<close>s are
  association lists in insertion order: \<^verbatim>\<open>set\<close> is \<^const>\<open>AList.update\<close> (an existing key keeps its
  place, a new key goes to the end), \<^verbatim>\<open>get\<close> is \<^const>\<open>map_of\<close>, \<^verbatim>\<open>delete\<close>
  is \<^const>\<open>AList.delete\<close>. An object that the code mutates in place (a part, a mesh)
  is the entry under its key, rewritten.

  Materials are objects shared by reference between meshes (the highlight materials of
  the manager, the one material the viewer gives to every mesh), and the section code
  mutates them; they live in a store addressed by references. \<open>Own\<close> references are
  allocated by the manager, \<open>External\<close> ones come with the meshes.

  The rendering engine is outside the model: a section plane is its plane type and the
  slider position it was placed with (the world coordinates that
  \<^verbatim>\<open>positionSectionPlane\<close> computes from the bounding box of the mesh are not
  represented), a clipping plane is the section plane it was computed from, the scene
  graph is the content of the manager's maps, and the calls into the engine return
  normally. The page (DOM) and the videos are outside as well.
\<close>

type_synonym partId = string

datatype matref = Own nat | External nat

record sectionPlane =
  planeType :: string
  position :: rat

record material_obj =
  clippingPlanes :: "sectionPlane list option"
  clipIntersection :: bool
  needsUpdate :: bool

record mesh =
  visible :: bool
  mesh_material :: matref
  glowChildren :: nat
  userData_partId :: partId

record managedPart =
  partData :: part
  originalVisible :: bool
  isSelected :: bool
  isHighlighted :: bool
  isHidden :: bool

record visualPlane =
  visual_plane :: sectionPlane
  visual_visible :: bool

record manager =
  partsMap :: "(partId \<times> managedPart) list"
  partMeshes :: "(partId \<times> mesh) list"
  partLabels :: "(partId \<times> bool) list"
  selectedPart :: "partId option"
  visibleParts :: "partId set"
  highlightedParts :: "partId set"
  sectionPlanes :: "(partId \<times> sectionPlane) list"
  crossSections :: "(partId \<times> sectionPlane list) list"
  cuttingPlaneVisuals :: "(partId \<times> visualPlane) list option"
  sectionedPartId :: "partId option"
  showCuttingPlane :: bool
  originalMaterials :: "(partId \<times> matref) list"
  highlightMaterial :: matref
  highlight2Material :: "matref option"
  hiddenMaterial :: matref
  materials :: "matref \<Rightarrow> material_obj"
  nextMaterial :: nat
  preIsolationState :: "(partId \<times> bool) list option"
  localClippingEnabled :: bool

definition new_material :: material_obj where
  "new_material = \<lparr>clippingPlanes = None, clipIntersection = False, needsUpdate = False\<rparr>"

text \<open>The constructor, over the store of the materials that exist outside the manager.\<close>

definition constructor :: "(matref \<Rightarrow> material_obj) \<Rightarrow> manager" where
  "constructor store =
     \<lparr>partsMap = [], partMeshes = [], partLabels = [], selectedPart = None,
      visibleParts = {}, highlightedParts = {}, sectionPlanes = [], crossSections = [],
      cuttingPlaneVisuals = None, sectionedPartId = None, showCuttingPlane = True,
      originalMaterials = [], highlightMaterial = Own 0, highlight2Material = None,
      hiddenMaterial = Own 1,
      materials = store(Own 0 := new_material, Own 1 := new_material),
      nextMaterial = 2, preIsolationState = None, localClippingEnabled = False\<rparr>"

subsection \<open>Registration\<close>

text \<open>
  \<^verbatim>\<open>addPart\<close>: the material of the mesh is cloned into \<^verbatim>\<open>originalMaterials\<close>, and
  \<^verbatim>\<open>createPartLabel\<close> registers a visible label.
\<close>

definition addPart :: "part \<Rightarrow> mesh \<Rightarrow> manager \<Rightarrow> manager" where
  "addPart pd m s =
     (let partId = partNumber pd;
          clone = Own (nextMaterial s)
      in s\<lparr>partsMap := AList.update partId
              \<lparr>partData = pd, originalVisible = True, isSelected = False,
               isHighlighted = False, isHidden = False\<rparr> (partsMap s),
           partMeshes := AList.update partId m (partMeshes s),
           visibleParts := insert partId (visibleParts s),
           originalMaterials := AList.update partId clone (originalMaterials s),
           materials := (materials s)(clone := materials s (mesh_material m)),
           nextMaterial := Suc (nextMaterial s),
           partLabels := AList.update partId True (partLabels s)\<rparr>)"

subsection \<open>Section mode\<close>

definition isInSectioningMode :: "manager \<Rightarrow> bool" where
  "isInSectioningMode s = (sectionedPartId s \<noteq> None)"

definition maintainSectioningIsolation :: "manager \<Rightarrow> manager" where
  "maintainSectioningIsolation s =
     (if isInSectioningMode s then
        s\<lparr>partMeshes :=
             map (\<lambda>(k, m). if Some k \<noteq> sectionedPartId s then (k, m\<lparr>visible := False\<rparr>)
                            else (k, m\<lparr>visible := True\<rparr>))
                 (partMeshes s)\<rparr>
      else s)"

definition forceSectioningMode :: "partId \<Rightarrow> manager \<Rightarrow> manager" where
  "forceSectioningMode partId s = maintainSectioningIsolation (s\<lparr>sectionedPartId := Some partId\<rparr>)"

text \<open>
  \<^verbatim>\<open>update\<close>, the per-frame tick. Its second test asks for a truthy
  \<^verbatim>\<open>sectionedPartId\<close> (set and not the empty string) outside section mode.
\<close>

definition update :: "manager \<Rightarrow> manager" where
  "update s =
     (let s1 = maintainSectioningIsolation s
      in case sectionedPartId s1 of
           None \<Rightarrow> s1
         | Some k \<Rightarrow> if k \<noteq> [] \<and> \<not> isInSectioningMode s1 then forceSectioningMode k s1 else s1)"

subsection \<open>Highlighting and selection\<close>

definition highlightPart :: "partId \<Rightarrow> manager \<Rightarrow> manager" where
  "highlightPart partId s =
     (case (map_of (partsMap s) partId, map_of (partMeshes s) partId) of
        (Some p, Some m) \<Rightarrow>
          if \<not> isHighlighted p then
            s\<lparr>partsMap := AList.update partId (p\<lparr>isHighlighted := True\<rparr>) (partsMap s),
              highlightedParts := insert partId (highlightedParts s),
              partMeshes := AList.update partId
                (m\<lparr>mesh_material := highlightMaterial s, glowChildren := Suc (glowChildren m)\<rparr>)
                (partMeshes s)\<rparr>
          else s
      | _ \<Rightarrow> s)"

definition removeHighlight :: "partId \<Rightarrow> manager \<Rightarrow> manager" where
  "removeHighlight partId s =
     (case (map_of (partsMap s) partId, map_of (partMeshes s) partId) of
        (Some p, Some m) \<Rightarrow>
          if isHighlighted p then
            s\<lparr>partsMap := AList.update partId (p\<lparr>isHighlighted := False\<rparr>) (partsMap s),
              highlightedParts := highlightedParts s - {partId},
              partMeshes := AList.update partId
                (m\<lparr>mesh_material :=
                     (case map_of (originalMaterials s) partId of
                        None \<Rightarrow> mesh_material m
                      | Some originalMaterial \<Rightarrow> originalMaterial),
                   glowChildren := glowChildren m - 1\<rparr>)
                (partMeshes s)\<rparr>
          else s
      | _ \<Rightarrow> s)"

text \<open>The assignment \<^verbatim>\<open>part.isSelected = b\<close> to the part stored under a key.\<close>

definition setSelected :: "partId \<Rightarrow> bool \<Rightarrow> manager \<Rightarrow> manager" where
  "setSelected partId b s =
     (case map_of (partsMap s) partId of
        None \<Rightarrow> s
      | Some p \<Rightarrow> s\<lparr>partsMap := AList.update partId (p\<lparr>isSelected := b\<rparr>) (partsMap s)\<rparr>)"

definition deselectPart :: "partId \<Rightarrow> manager \<Rightarrow> manager" where
  "deselectPart partId s =
     maintainSectioningIsolation
       (case map_of (partsMap s) partId of
          None \<Rightarrow> s
        | Some p \<Rightarrow> removeHighlight partId (setSelected partId False s))"

text \<open>
  \<^verbatim>\<open>selectPart\<close>. The previous selection is dropped and \<^verbatim>\<open>selectedPart\<close> is
  assigned before the part is looked up.
\<close>

definition selectPart :: "partId \<Rightarrow> manager \<Rightarrow> manager" where
  "selectPart partId s =
     (let s1 = (case selectedPart s of
                  None \<Rightarrow> s
                | Some sel \<Rightarrow> if sel \<noteq> [] \<and> sel \<noteq> partId then deselectPart sel s else s);
          s2 = s1\<lparr>selectedPart := Some partId\<rparr>;
          s3 = (case map_of (partsMap s2) partId of
                  None \<Rightarrow> s2
                | Some p \<Rightarrow> highlightPart partId (setSelected partId True s2))
      in maintainSectioningIsolation s3)"

definition deselectAllParts :: "manager \<Rightarrow> manager" where
  "deselectAllParts s =
     maintainSectioningIsolation
       (case selectedPart s of
          None \<Rightarrow> s
        | Some sel \<Rightarrow> if sel \<noteq> [] then (deselectPart sel s)\<lparr>selectedPart := None\<rparr> else s)"

text \<open>
  The two highlight colours of a sectioned part. \<^verbatim>\<open>switchToOrangeHighlight\<close> creates
  the second highlight material when the viewer has not yet done so.
\<close>

definition createHighlight2Material :: "manager \<Rightarrow> manager" where
  "createHighlight2Material s =
     s\<lparr>highlight2Material := Some (Own (nextMaterial s)),
       materials := (materials s)(Own (nextMaterial s) := new_material),
       nextMaterial := Suc (nextMaterial s)\<rparr>"

definition switchToOrangeHighlight :: "partId \<Rightarrow> manager \<Rightarrow> manager" where
  "switchToOrangeHighlight partId s =
     (case (map_of (partsMap s) partId, map_of (partMeshes s) partId) of
        (Some p, Some m) \<Rightarrow>
          if isHighlighted p then
            (let s1 = (if highlight2Material s = None then createHighlight2Material s else s)
             in case highlight2Material s1 of
                  None \<Rightarrow> s1
                | Some h2 \<Rightarrow>
                    s1\<lparr>partMeshes := AList.update partId (m\<lparr>mesh_material := h2\<rparr>) (partMeshes s1)\<rparr>)
          else s
      | _ \<Rightarrow> s)"

definition switchToGreenHighlight :: "partId \<Rightarrow> manager \<Rightarrow> manager" where
  "switchToGreenHighlight partId s =
     (case (map_of (partsMap s) partId, map_of (partMeshes s) partId) of
        (Some p, Some m) \<Rightarrow>
          if isHighlighted p then
            s\<lparr>partMeshes := AList.update partId (m\<lparr>mesh_material := highlightMaterial s\<rparr>)
                              (partMeshes s)\<rparr>
          else s
      | _ \<Rightarrow> s)"

subsection \<open>Hiding, showing, isolating\<close>

definition hidePart :: "partId \<Rightarrow> manager \<Rightarrow> manager" where
  "hidePart partId s =
     (case (map_of (partsMap s) partId, map_of (partMeshes s) partId) of
        (Some p, Some m) \<Rightarrow>
          s\<lparr>partsMap := AList.update partId (p\<lparr>isHidden := True\<rparr>) (partsMap s),
            partMeshes := AList.update partId (m\<lparr>visible := False\<rparr>) (partMeshes s),
            visibleParts := visibleParts s - {partId},
            partLabels := (case map_of (partLabels s) partId of
                             None \<Rightarrow> partLabels s
                           | Some l \<Rightarrow> AList.update partId False (partLabels s))\<rparr>
      | _ \<Rightarrow> s)"

definition showPart :: "partId \<Rightarrow> manager \<Rightarrow> manager" where
  "showPart partId s =
     (case (map_of (partsMap s) partId, map_of (partMeshes s) partId) of
        (Some p, Some m) \<Rightarrow>
          s\<lparr>partsMap := AList.update partId (p\<lparr>isHidden := False\<rparr>) (partsMap s),
            partMeshes := AList.update partId (m\<lparr>visible := True\<rparr>) (partMeshes s),
            visibleParts := insert partId (visibleParts s),
            partLabels := (case map_of (partLabels s) partId of
                             None \<Rightarrow> partLabels s
                           | Some l \<Rightarrow> AList.update partId True (partLabels s))\<rparr>
      | _ \<Rightarrow> s)"

definition togglePartVisibility :: "partId \<Rightarrow> manager \<Rightarrow> manager" where
  "togglePartVisibility partId s =
     (case map_of (partsMap s) partId of
        None \<Rightarrow> s
      | Some p \<Rightarrow> if isHidden p then showPart partId s else hidePart partId s)"

text \<open>
  \<^verbatim>\<open>isolatePart\<close>: the first loop fills a new \<^verbatim>\<open>preIsolationState\<close>, the second
  hides or shows part by part.
\<close>

definition isolatePart :: "partId \<Rightarrow> manager \<Rightarrow> manager" where
  "isolatePart partId s =
     (let s1 = s\<lparr>preIsolationState :=
                  Some (fold (\<lambda>(k, p) pre. AList.update k (isHidden p) pre) (partsMap s) [])\<rparr>
      in fold (\<lambda>k st. if k \<noteq> partId then hidePart k st else showPart k st)
              (map fst (partsMap s1)) s1)"

definition showAllParts :: "manager \<Rightarrow> manager" where
  "showAllParts s =
     (case preIsolationState s of
        Some pre \<Rightarrow>
          fold (\<lambda>(k, wasHidden) st. if wasHidden then hidePart k st else showPart k st) pre s
      | None \<Rightarrow> fold (\<lambda>k st. showPart k st) (map fst (partsMap s)) s)"

subsection \<open>Section planes\<close>

text \<open>
  The three helpers below take the key of the mesh they are handed in the code (a mesh
  of the engine always has a geometry and a material).
  \<^verbatim>\<open>createCrossSectionMaterial\<close> and \<^verbatim>\<open>createCuttingPlaneVisualization\<close> file their
  objects under \<^verbatim>\<open>mesh.userData.partId\<close>.
\<close>

definition createCrossSectionMaterial :: "partId \<Rightarrow> sectionPlane \<Rightarrow> manager \<Rightarrow> manager" where
  "createCrossSectionMaterial partId sp s =
     (case map_of (partMeshes s) partId of
        None \<Rightarrow> s
      | Some m \<Rightarrow> s\<lparr>crossSections := AList.update (userData_partId m) [sp] (crossSections s)\<rparr>)"

definition createCuttingPlaneVisualization :: "sectionPlane \<Rightarrow> partId \<Rightarrow> manager \<Rightarrow> manager" where
  "createCuttingPlaneVisualization sp partId s =
     (case map_of (partMeshes s) partId of
        None \<Rightarrow> s
      | Some m \<Rightarrow>
          s\<lparr>cuttingPlaneVisuals := Some
               (AList.update (userData_partId m)
                  \<lparr>visual_plane = sp, visual_visible = showCuttingPlane s\<rparr>
                  (case cuttingPlaneVisuals s of None \<Rightarrow> [] | Some vs \<Rightarrow> vs))\<rparr>)"

definition addClippingPlane :: "partId \<Rightarrow> sectionPlane \<Rightarrow> manager \<Rightarrow> manager" where
  "addClippingPlane partId sp s =
     (case map_of (partMeshes s) partId of
        None \<Rightarrow> s
      | Some m \<Rightarrow>
          (let r = mesh_material m;
               mat = materials s r;
               planes = (case clippingPlanes mat of None \<Rightarrow> [] | Some ps \<Rightarrow> ps);
               s1 = s\<lparr>materials := (materials s)
                         (r := mat\<lparr>clippingPlanes := Some (planes @ [sp]),
                                  clipIntersection := False,
                                  needsUpdate := True\<rparr>),
                       localClippingEnabled := True\<rparr>;
               s2 = createCrossSectionMaterial partId sp s1
           in createCuttingPlaneVisualization sp partId s2))"

text \<open>
  \<^verbatim>\<open>removeSectionPlane\<close>, first part: what is filed under the key is taken away,
  the section plane (with the clipping planes of the material of the mesh), the
  cross-section and the visual plane.
\<close>

definition dropSectionObjects :: "partId \<Rightarrow> manager \<Rightarrow> manager" where
  "dropSectionObjects partId s =
     (let crossSection = map_of (crossSections s) partId;
          s1 = (case map_of (sectionPlanes s) partId of
                  None \<Rightarrow> s
                | Some sp \<Rightarrow>
                    (let s' = (case map_of (partMeshes s) partId of
                                 None \<Rightarrow> s
                               | Some m \<Rightarrow>
                                   if clippingPlanes (materials s (mesh_material m)) \<noteq> None then
                                     s\<lparr>materials := (materials s)
                                          (mesh_material m := (materials s (mesh_material m))
                                             \<lparr>clippingPlanes := Some [], needsUpdate := True\<rparr>)\<rparr>
                                   else s)
                     in s'\<lparr>sectionPlanes := AList.delete partId (sectionPlanes s')\<rparr>));
          s2 = (case crossSection of
                  None \<Rightarrow> s1
                | Some cs \<Rightarrow> s1\<lparr>crossSections := AList.delete partId (crossSections s1)\<rparr>)
      in case cuttingPlaneVisuals s2 of
           None \<Rightarrow> s2
         | Some vs \<Rightarrow>
             (case map_of vs partId of
                None \<Rightarrow> s2
              | Some visual \<Rightarrow> s2\<lparr>cuttingPlaneVisuals := Some (AList.delete partId vs)\<rparr>))"

text \<open>
  \<^verbatim>\<open>removeSectionPlane\<close>. After the objects under the key are dropped, every mesh is
  made visible and \<^verbatim>\<open>sectionedPartId\<close> is cleared, whatever the key.
\<close>

definition removeSectionPlane :: "partId \<Rightarrow> manager \<Rightarrow> manager" where
  "removeSectionPlane partId s =
     (let s3 = dropSectionObjects partId s;
          s4 = s3\<lparr>partMeshes := map (\<lambda>(k, m). (k, m\<lparr>visible := True\<rparr>)) (partMeshes s3)\<rparr>;
          s5 = s4\<lparr>sectionedPartId := None\<rparr>
      in if selectedPart s5 = Some partId then switchToGreenHighlight partId s5 else s5)"

text \<open>
  \<^verbatim>\<open>createSectionPlane\<close> returns \<^verbatim>\<open>null\<close> for an unknown part and the new plane
  otherwise; the result is paired with the state.
\<close>

definition createSectionPlane ::
    "partId \<Rightarrow> string \<Rightarrow> rat \<Rightarrow> manager \<Rightarrow> sectionPlane option \<times> manager" where
  "createSectionPlane partId ptype pos s =
     (case (map_of (partsMap s) partId, map_of (partMeshes s) partId) of
        (Some p, Some m) \<Rightarrow>
          (let s1 = removeSectionPlane partId s;
               s2 = s1\<lparr>partMeshes :=
                         map (\<lambda>(k, om). if k \<noteq> partId then (k, om\<lparr>visible := False\<rparr>) else (k, om))
                             (partMeshes s1)\<rparr>;
               s3 = forceSectioningMode partId s2;
               sp = \<lparr>planeType = ptype, position = pos\<rparr>;
               s4 = s3\<lparr>sectionPlanes := AList.update partId sp (sectionPlanes s3)\<rparr>;
               s5 = switchToOrangeHighlight partId s4
           in (Some sp, addClippingPlane partId sp s5))
      | _ \<Rightarrow> (None, s))"

definition updateSectionPlane :: "partId \<Rightarrow> rat \<Rightarrow> manager \<Rightarrow> manager" where
  "updateSectionPlane partId pos s =
     (case (map_of (sectionPlanes s) partId, map_of (partMeshes s) partId) of
        (Some sp, Some m) \<Rightarrow>
          (let sp' = sp\<lparr>position := pos\<rparr>;
               s1 = s\<lparr>sectionPlanes := AList.update partId sp' (sectionPlanes s)\<rparr>;
               s2 = (case cuttingPlaneVisuals s1 of
                       None \<Rightarrow> s1
                     | Some vs \<Rightarrow>
                         (case map_of vs partId of
                            None \<Rightarrow> s1
                          | Some visual \<Rightarrow>
                              s1\<lparr>cuttingPlaneVisuals := Some
                                   (AList.update partId (visual\<lparr>visual_plane := sp'\<rparr>) vs)\<rparr>));
               mat = materials s2 (mesh_material m);
               s3 = (case clippingPlanes mat of
                       Some (c # cs) \<Rightarrow>
                         s2\<lparr>materials := (materials s2)
                              (mesh_material m := mat\<lparr>clippingPlanes := Some (sp' # cs)\<rparr>)\<rparr>
                     | _ \<Rightarrow> s2)
           in case map_of (crossSections s3) partId of
                Some (c # cs) \<Rightarrow>
                  s3\<lparr>crossSections := AList.update partId (sp' # cs) (crossSections s3)\<rparr>
              | _ \<Rightarrow> s3)
      | _ \<Rightarrow> s)"

subsection \<open>Sequences of operations\<close>

text \<open>
  The mutations that the page can trigger between two frames while a part is sectioned,
  other than creating or removing a section: selection, highlighting, hiding and showing,
  isolation, moving the section plane, and the tick itself.
\<close>

datatype operation =
    SelectPart partId
  | DeselectPart partId
  | DeselectAllParts
  | HighlightPart partId
  | RemoveHighlight partId
  | HidePart partId
  | ShowPart partId
  | TogglePartVisibility partId
  | IsolatePart partId
  | ShowAllParts
  | UpdateSectionPlane partId rat
  | Update

fun apply_operation :: "operation \<Rightarrow> manager \<Rightarrow> manager" where
  "apply_operation (SelectPart k) s = selectPart k s"
| "apply_operation (DeselectPart k) s = deselectPart k s"
| "apply_operation DeselectAllParts s = deselectAllParts s"
| "apply_operation (HighlightPart k) s = highlightPart k s"
| "apply_operation (RemoveHighlight k) s = removeHighlight k s"
| "apply_operation (HidePart k) s = hidePart k s"
| "apply_operation (ShowPart k) s = showPart k s"
| "apply_operation (TogglePartVisibility k) s = togglePartVisibility k s"
| "apply_operation (IsolatePart k) s = isolatePart k s"
| "apply_operation ShowAllParts s = showAllParts s"
| "apply_operation (UpdateSectionPlane k pos) s = updateSectionPlane k pos s"
| "apply_operation Update s = update s"

definition run :: "operation list \<Rightarrow> manager \<Rightarrow> manager" where
  "run ops s = fold apply_operation ops s"

section \<open>Notions used in the statements\<close>

subsection \<open>Analyzer\<close>

text \<open>
  The part number that the design document gives to the \<open>k\<close>-th part:
  \<^verbatim>\<open>P-\<close> and \<open>k\<close> padded with zeros to three digits.
\<close>

definition spec_partNumber :: "nat \<Rightarrow> string" where
  "spec_partNumber k = ''P-'' @ padStart 3 (CHR ''0'') (toString_nat k)"

text \<open>
  The accepted parts carry the numbers \<open>1, 2, \<dots>\<close> in order, and an open part carries
  the next one.
\<close>

definition numbered :: "analyzer \<Rightarrow> bool" where
  "numbered s =
     (map partNumber (parts s) = map spec_partNumber [1..<Suc (length (parts s))] \<and>
      (case currentPart s of
         None \<Rightarrow> True
       | Some p \<Rightarrow> partNumber p = spec_partNumber (Suc (length (parts s)))))"

text \<open>
  What the handlers of \<^verbatim>\<open>usemtl\<close>, \<^verbatim>\<open>v\<close>, \<^verbatim>\<open>vn\<close>, \<^verbatim>\<open>vt\<close> and \<^verbatim>\<open>f\<close>
  can do to the open part, and to the analyzer.
\<close>

definition part_edit :: "part \<Rightarrow> part \<Rightarrow> bool" where
  "part_edit p p' =
     ((\<exists>m. p' = p\<lparr>material := m\<rparr>) \<or>
      (\<exists>v. p' = p\<lparr>vertices := vertices p @ [v]\<rparr>) \<or>
      (\<exists>v. p' = p\<lparr>normals := normals p @ [v]\<rparr>) \<or>
      (\<exists>t. p' = p\<lparr>textureCoords := textureCoords p @ [t]\<rparr>) \<or>
      (\<exists>n fd face. parseFace n fd = Inr face \<and> p' = p\<lparr>faces := faces p @ [face]\<rparr>))"

definition edit_step :: "analyzer \<Rightarrow> analyzer \<Rightarrow> bool" where
  "edit_step s s' =
     (s' = s \<or> (\<exists>p p'. currentPart s = Some p \<and> part_edit p p' \<and> s' = s\<lparr>currentPart := Some p'\<rparr>))"

definition all_valid :: "analyzer \<Rightarrow> bool" where
  "all_valid s = (\<forall>q \<in> set (parts s). validatePart q)"

text \<open>The vertex number that \<^verbatim>\<open>handleFace\<close> reads from one corner of a face line.\<close>

definition faceVertexNumber :: "string \<Rightarrow> int option" where
  "faceVertexNumber vertexData = parseInt (hd (split_char (CHR ''/'') vertexData))"

definition faces_nonneg :: "part \<Rightarrow> bool" where
  "faces_nonneg p = (\<forall>f \<in> set (faces p). \<forall>e \<in> set f. 0 \<le> vertexIndex e)"

definition all_faces_nonneg :: "analyzer \<Rightarrow> bool" where
  "all_faces_nonneg s =
     ((\<forall>p \<in> set (parts s). faces_nonneg p) \<and>
      (case currentPart s of None \<Rightarrow> True | Some p \<Rightarrow> faces_nonneg p))"

subsection \<open>Manager\<close>

text \<open>
  A part is registered when \<^verbatim>\<open>addPart\<close> has filed it: it is a key of
  \<^verbatim>\<open>parts\<close> and of \<^verbatim>\<open>partMeshes\<close>. The hidden flag and the mesh visibility of a
  key are read through the two maps.
\<close>

definition registered :: "manager \<Rightarrow> partId \<Rightarrow> bool" where
  "registered s k = (map_of (partsMap s) k \<noteq> None \<and> map_of (partMeshes s) k \<noteq> None)"

definition hiddenFlag :: "manager \<Rightarrow> partId \<Rightarrow> bool option" where
  "hiddenFlag s k = map_option isHidden (map_of (partsMap s) k)"

definition meshVisible :: "manager \<Rightarrow> partId \<Rightarrow> bool option" where
  "meshVisible s k = map_option visible (map_of (partMeshes s) k)"

text \<open>
  \<^verbatim>\<open>hidePart\<close> and \<^verbatim>\<open>showPart\<close> as one function of the flag to set, and the loops
  of \<^verbatim>\<open>isolatePart\<close> and \<^verbatim>\<open>showAllParts\<close> as its iteration.
\<close>

definition setHidden :: "partId \<Rightarrow> bool \<Rightarrow> manager \<Rightarrow> manager" where
  "setHidden k h s = (if h then hidePart k s else showPart k s)"

definition applyHidden :: "(partId \<times> bool) list \<Rightarrow> manager \<Rightarrow> manager" where
  "applyHidden xs s = fold (\<lambda>(k, h). setHidden k h) xs s"

text \<open>Exactly the mesh of \<open>a\<close> is visible; flag and mesh of every registered part agree.\<close>

definition onlyVisible :: "partId \<Rightarrow> manager \<Rightarrow> bool" where
  "onlyVisible a s = (\<forall>(k, m) \<in> set (partMeshes s). visible m = (k = a))"

definition lockstep :: "manager \<Rightarrow> bool" where
  "lockstep s = (\<forall>k h v. hiddenFlag s k = Some h \<and> meshVisible s k = Some v \<longrightarrow> h = (\<not> v))"

text \<open>
  The operations above together with the two that start and end a section, for traces
  that change the section. A trace stays with the section of \<open>a\<close> as long as it does
  not call \<^verbatim>\<open>removeSectionPlane\<close> (for any id) and does not call
  \<^verbatim>\<open>createSectionPlane\<close> for another part that is registered at that moment.
\<close>

datatype section_operation =
    Plain operation
  | CreateSectionPlane partId string rat
  | RemoveSectionPlane partId

fun apply_section_operation :: "section_operation \<Rightarrow> manager \<Rightarrow> manager" where
  "apply_section_operation (Plain x) s = apply_operation x s"
| "apply_section_operation (CreateSectionPlane k t pos) s = snd (createSectionPlane k t pos s)"
| "apply_section_operation (RemoveSectionPlane k) s = removeSectionPlane k s"

fun run_section :: "section_operation list \<Rightarrow> manager \<Rightarrow> manager" where
  "run_section [] s = s"
| "run_section (x # xs) s = run_section xs (apply_section_operation x s)"

fun keeps_section :: "partId \<Rightarrow> section_operation \<Rightarrow> manager \<Rightarrow> bool" where
  "keeps_section a (Plain x) s = True"
| "keeps_section a (CreateSectionPlane k t pos) s = (k = a \<or> \<not> registered s k)"
| "keeps_section a (RemoveSectionPlane k) s = False"

fun in_window :: "partId \<Rightarrow> section_operation list \<Rightarrow> manager \<Rightarrow> bool" where
  "in_window a [] s = True"
| "in_window a (x # xs) s =
     (keeps_section a x s \<and> in_window a xs (apply_section_operation x s))"

subsection \<open>A small registry\<close>

text \<open>
  Two parts, \<^verbatim>\<open>P-001\<close> and \<^verbatim>\<open>P-002\<close>, each mesh with a material of its own, added
  to a fresh manager after the viewer has created the second highlight material.
\<close>

definition demo_part :: "string \<Rightarrow> part" where
  "demo_part k =
     \<lparr>name = ''Part_'' @ k, vertices = [], normals = [], textureCoords = [], faces = [],
      material = None, boundingBox = None, center = None, size_p = None,
      partNumber = k, type_p = ''Component''\<rparr>"

definition demo_mesh :: "string \<Rightarrow> nat \<Rightarrow> mesh" where
  "demo_mesh k r = \<lparr>visible = True, mesh_material = External r, glowChildren = 0, userData_partId = k\<rparr>"

definition demo_manager :: manager where
  "demo_manager =
     addPart (demo_part ''P-002'') (demo_mesh ''P-002'' 1)
       (addPart (demo_part ''P-001'') (demo_mesh ''P-001'' 0)
          (createHighlight2Material (constructor (\<lambda>r. new_material))))"

section \<open>The analyzer: shape of a scan\<close>

lemma finalizePart_idem: "finalizePart (finalizePart s) = finalizePart s"
  by (auto simp: finalizePart_def Let_def split: option.splits)

lemma finalizePart_parts:
  "set (parts (finalizePart s)) \<subseteq> set (parts s) \<union> {q. validatePart q}"
  by (auto simp: finalizePart_def Let_def split: option.splits)

lemma handleObjectName_finalizePart:
  "currentPart s \<noteq> None \<Longrightarrow> handleObjectName nm (finalizePart s) = handleObjectName nm s"
  by (simp add: handleObjectName_def Let_def finalizePart_idem)

lemma handleGroupName_cases:
  "handleGroupName nm s = s \<or> handleGroupName nm s = handleObjectName nm s"
proof (cases "currentPart s")
  case None
  then show ?thesis by (simp add: handleGroupName_def)
next
  case (Some p)
  then have "handleObjectName nm (finalizePart s) = handleObjectName nm s"
    by (simp add: handleObjectName_finalizePart)
  with Some show ?thesis by (simp add: handleGroupName_def)
qed

lemma edit_step_refl: "edit_step s s"
  by (simp add: edit_step_def)

lemma edit_stepI:
  "currentPart s = Some p \<Longrightarrow> part_edit p p' \<Longrightarrow> edit_step s (s\<lparr>currentPart := Some p'\<rparr>)"
  unfolding edit_step_def by blast

lemma part_edit_material: "part_edit p (p\<lparr>material := m\<rparr>)"
  unfolding part_edit_def by blast

lemma part_edit_vertices: "part_edit p (p\<lparr>vertices := vertices p @ [v]\<rparr>)"
  unfolding part_edit_def by blast

lemma part_edit_normals: "part_edit p (p\<lparr>normals := normals p @ [v]\<rparr>)"
  unfolding part_edit_def by blast

lemma part_edit_textureCoords: "part_edit p (p\<lparr>textureCoords := textureCoords p @ [t]\<rparr>)"
  unfolding part_edit_def by blast

lemma part_edit_faces:
  "parseFace n fd = Inr face \<Longrightarrow> part_edit p (p\<lparr>faces := faces p @ [face]\<rparr>)"
  unfolding part_edit_def by blast

lemma handleMaterialUsage_edit: "edit_step s (handleMaterialUsage m s)"
  by (cases "currentPart s")
     (simp_all add: handleMaterialUsage_def edit_step_refl edit_stepI part_edit_material)

lemma handleVertex_edit: "handleVertex c n s = Inr s' \<Longrightarrow> edit_step s s'"
  by (cases "currentPart s")
     (auto simp: handleVertex_def edit_step_refl edit_stepI part_edit_vertices
           split: if_splits sum.splits)

lemma handleNormal_edit: "handleNormal c n s = Inr s' \<Longrightarrow> edit_step s s'"
  by (cases "currentPart s")
     (auto simp: handleNormal_def edit_step_refl edit_stepI part_edit_normals
           split: if_splits sum.splits)

lemma handleTextureCoord_edit: "handleTextureCoord c n s = Inr s' \<Longrightarrow> edit_step s s'"
  by (cases "currentPart s")
     (auto simp: handleTextureCoord_def edit_step_refl edit_stepI part_edit_textureCoords
           split: if_splits sum.splits)

lemma handleFace_edit: "handleFace c n s = Inr s' \<Longrightarrow> edit_step s s'"
  by (cases "currentPart s")
     (auto simp: handleFace_def edit_step_refl edit_stepI part_edit_faces
           split: if_splits sum.splits)

lemma dispatch_shape:
  "dispatch ps n s = Inr s' \<Longrightarrow>
     edit_step s s' \<or> s' = handleObjectName (join_sp (tl ps)) s \<or>
     s' = handleGroupName (join_sp (tl ps)) s"
  unfolding dispatch_def Let_def
  by (auto simp: handleMaterialUsage_edit handleMaterialLibrary_def edit_step_refl
      dest: handleVertex_edit handleNormal_edit handleTextureCoord_edit handleFace_edit
      split: if_splits)

lemma processLine_shape:
  "edit_step s (processLine n l s) \<or> (\<exists>nm. processLine n l s = handleObjectName nm s)"
proof (cases "dispatch (split_ws (trim l)) n s")
  case (Inl e)
  then show ?thesis by (simp add: processLine_def Let_def edit_step_def)
next
  case (Inr s')
  have "processLine n l s = s \<or> processLine n l s = s'"
    using Inr by (simp add: processLine_def Let_def)
  then show ?thesis
    using dispatch_shape[OF Inr] handleGroupName_cases[of "join_sp (tl (split_ws (trim l)))" s]
    by (auto simp: edit_step_def)
qed

text \<open>
  A property of the analyzer state that holds initially and is kept by finalising, by
  opening a part and by editing the open part holds after the scan of any text, before
  and after the last finalisation.
\<close>

lemma analyzer_invariant:
  assumes init: "I analyzer_init"
    and fin: "\<And>s. I s \<Longrightarrow> I (finalizePart s)"
    and opn: "\<And>s nm. I s \<Longrightarrow> I (s\<lparr>currentPart := Some (newPart nm s)\<rparr>)"
    and edt: "\<And>s p p'. I s \<Longrightarrow> currentPart s = Some p \<Longrightarrow> part_edit p p' \<Longrightarrow>
                I (s\<lparr>currentPart := Some p'\<rparr>)"
  shows "I (scanText t) \<and> I (finalizePart (scanText t))"
proof -
  have obj: "I (handleObjectName nm s)" if "I s" for s nm
    using that fin[of s] opn by (simp add: handleObjectName_def Let_def)
  have line: "I (processLine n l s)" if "I s" for n l s
    using processLine_shape[of s n l] that obj edt by (auto simp: edit_step_def)
  have scan: "I (scanLines ls n s)" if "I s" for ls n s
    using that by (induction ls arbitrary: n s) (auto simp: line)
  have "I (scanText t)" unfolding scanText_def by (rule scan) (rule init)
  then show ?thesis using fin by simp
qed

section \<open>Properties of the part analyzer\<close>

subsection \<open>Arguments that are not text\<close>

text \<open>
  C10. An argument of \<^verbatim>\<open>analyzeOBJ\<close> that is not a non-empty string (null, undefined,
  a value of another type, the empty string) gives the empty list of parts; the function
  returns a list in every case, no error leaves it.
\<close>

theorem analyzeOBJ_invalid_input:
  "\<not> (\<exists>s. s \<noteq> [] \<and> objContent = JString s) \<Longrightarrow> analyzeOBJ objContent = []"
  by (cases objContent) (auto simp: analyzeOBJ_def)

theorem analyzeOBJ_invalid_input_witness:
  "analyzeOBJ JNull = [] \<and> analyzeOBJ JUndefined = [] \<and> analyzeOBJ (JString []) = []
   \<and> analyzeOBJ (JNumber (Fin 42)) = [] \<and> analyzeOBJ JObject = []"
  using analyzeOBJ_invalid_input[of JNull] analyzeOBJ_invalid_input[of JUndefined]
    analyzeOBJ_invalid_input[of "JString []"] analyzeOBJ_invalid_input[of "JNumber (Fin 42)"]
    analyzeOBJ_invalid_input[of JObject]
  by simp

subsection \<open>Retained parts\<close>

lemma all_valid_finalizePart: "all_valid s \<Longrightarrow> all_valid (finalizePart s)"
  using finalizePart_parts[of s] by (auto simp: all_valid_def)

lemma all_valid_scan: "all_valid (scanText t) \<and> all_valid (finalizePart (scanText t))"
proof (rule analyzer_invariant)
  show "all_valid analyzer_init" by (simp add: all_valid_def analyzer_init_def)
  show "\<And>s. all_valid s \<Longrightarrow> all_valid (finalizePart s)" by (rule all_valid_finalizePart)
  show "\<And>s nm. all_valid s \<Longrightarrow> all_valid (s\<lparr>currentPart := Some (newPart nm s)\<rparr>)"
    by (simp add: all_valid_def)
  show "\<And>s p p'. all_valid s \<Longrightarrow> currentPart s = Some p \<Longrightarrow> part_edit p p' \<Longrightarrow>
          all_valid (s\<lparr>currentPart := Some p'\<rparr>)"
    by (simp add: all_valid_def)
qed

lemma all_valid_analyzeOBJ: "q \<in> set (analyzeOBJ v) \<Longrightarrow> validatePart q"
  using all_valid_scan[of "string_of v"]
  by (auto simp: analyzeOBJ_def Let_def all_valid_def split: if_splits)

lemma validatePart_D:
  "validatePart q \<Longrightarrow>
     length (vertices q) \<ge> 1 \<and> length (faces q) \<ge> 1 \<and>
     (\<exists>sz. size_p q = Some sz \<and>
           js_gt (x_v sz) (Fin 0) \<and> js_gt (y_v sz) (Fin 0) \<and> js_gt (z_v sz) (Fin 0))"
  by (cases "size_p q") (simp_all add: validatePart_def Suc_le_eq)

text \<open>
  C5. Every part that \<^verbatim>\<open>analyzeOBJ\<close> returns has at least one vertex, at least one
  face and a strictly positive size along each of the three axes. A part that fails the
  validation when it is finalised is not appended to the result; it is dropped without an
  error (the result is a plain list of parts).
\<close>

theorem analyzeOBJ_parts_valid:
  "(\<forall>q \<in> set (analyzeOBJ objContent).
      length (vertices q) \<ge> 1 \<and> length (faces q) \<ge> 1 \<and>
      (\<exists>sz. size_p q = Some sz \<and>
            js_gt (x_v sz) (Fin 0) \<and> js_gt (y_v sz) (Fin 0) \<and> js_gt (z_v sz) (Fin 0))) \<and>
   (currentPart s = Some p \<and> \<not> validatePart (calculateBoundingBox p) \<longrightarrow>
      parts (finalizePart s) = parts s)"
proof (intro conjI ballI impI)
  fix q assume "q \<in> set (analyzeOBJ objContent)"
  then have "validatePart q" by (rule all_valid_analyzeOBJ)
  then show "length (vertices q) \<ge> 1" and "length (faces q) \<ge> 1"
    and "\<exists>sz. size_p q = Some sz \<and>
            js_gt (x_v sz) (Fin 0) \<and> js_gt (y_v sz) (Fin 0) \<and> js_gt (z_v sz) (Fin 0)"
    using validatePart_D[of q] by blast+
next
  assume "currentPart s = Some p \<and> \<not> validatePart (calculateBoundingBox p)"
  then show "parts (finalizePart s) = parts s"
    by (simp add: finalizePart_def Let_def)
qed

text \<open>
  The two examples of the design document: the flat triangle is dropped (its extent along
  z is zero), and with a fourth vertex above the plane the part is returned.
\<close>

theorem analyzeOBJ_parts_valid_witness:
  "analyzeOBJ (JString ''o Flange1\<newline>v 0 0 0\<newline>v 1 0 0\<newline>v 0 1 0\<newline>f 1 2 3\<newline>v 0 0 1\<newline>f 1 2 4\<newline>'') \<noteq> [] \<and>
   1 \<le> length (vertices (hd (analyzeOBJ (JString ''o Flange1\<newline>v 0 0 0\<newline>v 1 0 0\<newline>v 0 1 0\<newline>f 1 2 3\<newline>v 0 0 1\<newline>f 1 2 4\<newline>'')))) \<and>
   1 \<le> length (faces (hd (analyzeOBJ (JString ''o Flange1\<newline>v 0 0 0\<newline>v 1 0 0\<newline>v 0 1 0\<newline>f 1 2 3\<newline>v 0 0 1\<newline>f 1 2 4\<newline>'')))) \<and>
   size_p (hd (analyzeOBJ (JString ''o Flange1\<newline>v 0 0 0\<newline>v 1 0 0\<newline>v 0 1 0\<newline>f 1 2 3\<newline>v 0 0 1\<newline>f 1 2 4\<newline>'')))
     = Some \<lparr>x_v = Fin 1, y_v = Fin 1, z_v = Fin 1\<rparr> \<and>
   map_option name (currentPart (scanText ''o Flange1\<newline>v 0 0 0\<newline>v 1 0 0\<newline>v 0 1 0\<newline>f 1 2 3\<newline>'')) = Some ''Flange1'' \<and>
   map_option (size_p \<circ> calculateBoundingBox) (currentPart (scanText ''o Flange1\<newline>v 0 0 0\<newline>v 1 0 0\<newline>v 0 1 0\<newline>f 1 2 3\<newline>''))
     = Some (Some \<lparr>x_v = Fin 1, y_v = Fin 1, z_v = Fin 0\<rparr>) \<and>
   parts (finalizePart (scanText ''o Flange1\<newline>v 0 0 0\<newline>v 1 0 0\<newline>v 0 1 0\<newline>f 1 2 3\<newline>'')) = [] \<and>
   analyzeOBJ (JString ''o Flange1\<newline>v 0 0 0\<newline>v 1 0 0\<newline>v 0 1 0\<newline>f 1 2 3\<newline>'') = []"
proof -
  let ?t2 = "''o Flange1\<newline>v 0 0 0\<newline>v 1 0 0\<newline>v 0 1 0\<newline>f 1 2 3\<newline>v 0 0 1\<newline>f 1 2 4\<newline>''"
  let ?t1 = "''o Flange1\<newline>v 0 0 0\<newline>v 1 0 0\<newline>v 0 1 0\<newline>f 1 2 3\<newline>''"
  have ne: "analyzeOBJ (JString ?t2) \<noteq> []" by code_simp
  then have mem: "hd (analyzeOBJ (JString ?t2)) \<in> set (analyzeOBJ (JString ?t2))" by simp
  have sz: "size_p (hd (analyzeOBJ (JString ?t2))) = Some \<lparr>x_v = Fin 1, y_v = Fin 1, z_v = Fin 1\<rparr>"
    by code_simp
  have cur: "map_option name (currentPart (scanText ?t1)) = Some ''Flange1''"
    and bb: "map_option (size_p \<circ> calculateBoundingBox) (currentPart (scanText ?t1))
       = Some (Some \<lparr>x_v = Fin 1, y_v = Fin 1, z_v = Fin 0\<rparr>)"
    and e1: "parts (scanText ?t1) = []"
    and e2: "analyzeOBJ (JString ?t1) = []"
    by code_simp+
  from cur obtain p where p: "currentPart (scanText ?t1) = Some p" by auto
  with bb have "size_p (calculateBoundingBox p) = Some \<lparr>x_v = Fin 1, y_v = Fin 1, z_v = Fin 0\<rparr>"
    by simp
  then have inv: "\<not> validatePart (calculateBoundingBox p)"
    by (simp add: validatePart_def js_gt_def)
  note T = analyzeOBJ_parts_valid[of "JString ?t2" "scanText ?t1" p]
  from T mem p inv have "1 \<le> length (vertices (hd (analyzeOBJ (JString ?t2))))"
    and "1 \<le> length (faces (hd (analyzeOBJ (JString ?t2))))"
    and "parts (finalizePart (scanText ?t1)) = parts (scanText ?t1)"
    by blast+
  with ne sz cur bb e1 e2 show ?thesis by simp
qed

subsection \<open>Part numbers\<close>

lemma generatePartNumber_eq: "generatePartNumber s = spec_partNumber (Suc (length (parts s)))"
  by (simp add: generatePartNumber_def spec_partNumber_def)

lemma partNumber_newPart: "partNumber (newPart nm s) = spec_partNumber (Suc (length (parts s)))"
  by (simp add: newPart_def generatePartNumber_eq)

lemma partNumber_calculateBoundingBox: "partNumber (calculateBoundingBox p) = partNumber p"
  by (simp add: calculateBoundingBox_def Let_def)

lemma part_edit_partNumber: "part_edit p p' \<Longrightarrow> partNumber p' = partNumber p"
  unfolding part_edit_def by auto

lemma numbered_finalizePart: "numbered s \<Longrightarrow> numbered (finalizePart s)"
  by (cases "currentPart s")
     (auto simp: numbered_def finalizePart_def Let_def partNumber_calculateBoundingBox)

lemma numbered_open: "numbered s \<Longrightarrow> numbered (s\<lparr>currentPart := Some (newPart nm s)\<rparr>)"
  by (simp add: numbered_def partNumber_newPart)

lemma numbered_edit:
  "numbered s \<Longrightarrow> currentPart s = Some p \<Longrightarrow> part_edit p p' \<Longrightarrow>
     numbered (s\<lparr>currentPart := Some p'\<rparr>)"
  by (simp add: numbered_def part_edit_partNumber)

lemma numbered_scan: "numbered (scanText t) \<and> numbered (finalizePart (scanText t))"
  by (rule analyzer_invariant)
     (simp_all add: numbered_finalizePart numbered_open numbered_edit,
      simp add: numbered_def analyzer_init_def)

lemma digit_val_digit_char: "d < 10 \<Longrightarrow> digit_val (digit_char d) = d"
  by (simp add: digit_val_def digit_char_def)

lemma digits_value_snoc: "digits_value (ds @ [c]) = 10 * digits_value ds + digit_val c"
  by (simp add: digits_value_def)

lemma digits_value_toString_nat: "digits_value (toString_nat n) = n"
proof (induction n rule: toString_nat.induct)
  case (1 n)
  show ?case
  proof (cases "n < 10")
    case True
    then show ?thesis
      by (subst toString_nat.simps) (simp add: digits_value_def digit_val_digit_char)
  next
    case False
    with 1 have "digits_value (toString_nat (n div 10)) = n div 10" by simp
    with False show ?thesis
      by (subst toString_nat.simps) (simp add: digits_value_snoc digit_val_digit_char)
  qed
qed

lemma digits_value_zeros: "digits_value (replicate k (CHR ''0'') @ ds) = digits_value ds"
proof -
  have "foldl (\<lambda>acc c. 10 * acc + digit_val c) 0 (replicate k (CHR ''0'')) = 0"
    by (induction k) (simp_all add: digit_val_def)
  then show ?thesis by (simp add: digits_value_def)
qed

lemma spec_partNumber_value: "digits_value (drop 2 (spec_partNumber k)) = k"
  by (simp add: spec_partNumber_def padStart_def digits_value_zeros digits_value_toString_nat)

lemma inj_spec_partNumber: "inj spec_partNumber"
  by (rule inj_on_inverseI[where g = "\<lambda>s. digits_value (drop 2 s)"]) (rule spec_partNumber_value)

lemma numbered_analyzeOBJ:
  "map partNumber (analyzeOBJ v) = map spec_partNumber [1..<Suc (length (analyzeOBJ v))]"
  using numbered_scan[of "string_of v"]
  by (auto simp: analyzeOBJ_def Let_def numbered_def)

lemma rejected_number_reused:
  assumes "currentPart (scanText t) = Some p" and "\<not> validatePart (calculateBoundingBox p)"
  shows "map_option partNumber (currentPart (handleObjectName nm (scanText t))) =
           Some (partNumber p)"
proof -
  let ?s = "scanText t"
  have "numbered ?s" using numbered_scan[of t] by simp
  with assms(1) have pn: "partNumber p = spec_partNumber (Suc (length (parts ?s)))"
    by (simp add: numbered_def)
  have "parts (finalizePart ?s) = parts ?s"
    using assms by (simp add: finalizePart_def Let_def)
  then show ?thesis
    using assms(1) pn by (simp add: handleObjectName_def Let_def partNumber_newPart)
qed

text \<open>
  C4, as the code has it. \<^verbatim>\<open>generatePartNumber\<close> counts the parts accepted so far,
  not the parts opened: a part is numbered, when it is opened, one more than the number
  of parts already in the result. So the \<open>i\<close>-th part of the result of \<^verbatim>\<open>analyzeOBJ\<close>
  has the number \<^verbatim>\<open>P-\<close>\<open>i\<close> (padded to three digits), and the numbers in the result are
  pairwise distinct. When the open part is rejected at its finalisation, the part opened
  next is given its number again.
\<close>

theorem partNumber_sequential:
  "map partNumber (analyzeOBJ objContent) =
     map spec_partNumber [1..<Suc (length (analyzeOBJ objContent))] \<and>
   distinct (map partNumber (analyzeOBJ objContent)) \<and>
   map_option partNumber (currentPart (handleObjectName nm s)) =
     Some (spec_partNumber (Suc (length (parts (handleObjectName nm s))))) \<and>
   (currentPart (scanText t) = Some p \<and> \<not> validatePart (calculateBoundingBox p) \<longrightarrow>
      map_option partNumber (currentPart (handleObjectName nm (scanText t))) =
        Some (partNumber p))"
proof (intro conjI impI)
  show 1: "map partNumber (analyzeOBJ objContent) =
     map spec_partNumber [1..<Suc (length (analyzeOBJ objContent))]"
    by (rule numbered_analyzeOBJ)
  have "distinct (map spec_partNumber [1..<Suc (length (analyzeOBJ objContent))])"
    by (simp add: distinct_map inj_on_subset[OF inj_spec_partNumber])
  with 1 show "distinct (map partNumber (analyzeOBJ objContent))" by simp
  show "map_option partNumber (currentPart (handleObjectName nm s)) =
     Some (spec_partNumber (Suc (length (parts (handleObjectName nm s)))))"
    by (simp add: handleObjectName_def Let_def partNumber_newPart)
next
  assume "currentPart (scanText t) = Some p \<and> \<not> validatePart (calculateBoundingBox p)"
  then show "map_option partNumber (currentPart (handleObjectName nm (scanText t))) =
        Some (partNumber p)"
    by (simp add: rejected_number_reused)
qed

theorem partNumber_sequential_witness:
  "map partNumber (analyzeOBJ (JString ''o A\<newline>v 0 0 0\<newline>v 1 1 1\<newline>f 1 2 1\<newline>o B\<newline>v 2 2 2\<newline>v 3 3 3\<newline>f 3 4 3''))
     = [''P-001'', ''P-002''] \<and>
   distinct (map partNumber (analyzeOBJ (JString ''o A\<newline>v 0 0 0\<newline>v 1 1 1\<newline>f 1 2 1\<newline>o B\<newline>v 2 2 2\<newline>v 3 3 3\<newline>f 3 4 3''))) \<and>
   map_option partNumber (currentPart (handleObjectName ''C'' (scanText ''o A\<newline>v 0 0 0\<newline>v 1 1 1\<newline>f 1 2 1\<newline>o B\<newline>v 2 2'')))
     = Some ''P-002'' \<and>
   map_option partNumber (currentPart (scanText ''o A\<newline>v 0 0 0'')) = Some ''P-001'' \<and>
   map_option (validatePart \<circ> calculateBoundingBox) (currentPart (scanText ''o A\<newline>v 0 0 0''))
     = Some False \<and>
   map_option partNumber (currentPart (handleObjectName ''B'' (scanText ''o A\<newline>v 0 0 0'')))
     = Some ''P-001''"
proof -
  let ?t = "''o A\<newline>v 0 0 0\<newline>v 1 1 1\<newline>f 1 2 1\<newline>o B\<newline>v 2 2 2\<newline>v 3 3 3\<newline>f 3 4 3''"
  let ?u = "''o A\<newline>v 0 0 0\<newline>v 1 1 1\<newline>f 1 2 1\<newline>o B\<newline>v 2 2''"
  let ?w = "''o A\<newline>v 0 0 0''"
  have l: "length (analyzeOBJ (JString ?t)) = 2"
    and n: "length (parts (handleObjectName ''C'' (scanText ?u))) = 1"
    and s: "map spec_partNumber [1..<Suc 2] = [''P-001'', ''P-002'']"
      "spec_partNumber (Suc 1) = ''P-002''"
    and w1: "map_option partNumber (currentPart (scanText ?w)) = Some ''P-001''"
    and w2: "map_option (validatePart \<circ> calculateBoundingBox) (currentPart (scanText ?w))
               = Some False"
    by code_simp+
  from w1 obtain p where p: "currentPart (scanText ?w) = Some p" and pn: "partNumber p = ''P-001''"
    by auto
  from w2 p have inv: "\<not> validatePart (calculateBoundingBox p)" by simp
  note T = partNumber_sequential[of "JString ?t" "''C''" "scanText ?u" ?w p]
  note U = partNumber_sequential[of "JString ?t" "''B''" "scanText ?w" ?w p]
  from U p inv pn have
    "map_option partNumber (currentPart (handleObjectName ''B'' (scanText ?w))) = Some ''P-001''"
    by simp
  with T l n s w1 w2 show ?thesis by simp
qed

text \<open>
  The number of a rejected part is given again: \<^verbatim>\<open>A\<close> is opened as \<^verbatim>\<open>P-001\<close> and
  dropped for want of a face, and \<^verbatim>\<open>B\<close>, the second part opened, is \<^verbatim>\<open>P-001\<close> too,
  in the open state and in the result.
\<close>

theorem partNumber_counterexample:
  "map_option partNumber (currentPart (scanText ''o A\<newline>v 0 0 0'')) = Some ''P-001'' \<and>
   map_option partNumber (currentPart (scanText ''o A\<newline>v 0 0 0\<newline>o B'')) = Some ''P-001'' \<and>
   map name (analyzeOBJ (JString ''o A\<newline>v 0 0 0\<newline>o B\<newline>v 0 0 0\<newline>v 1 1 1\<newline>f 1 2 1'')) = [''B''] \<and>
   map partNumber (analyzeOBJ (JString ''o A\<newline>v 0 0 0\<newline>o B\<newline>v 0 0 0\<newline>v 1 1 1\<newline>f 1 2 1'')) = [''P-001''] \<and>
   spec_partNumber 2 = ''P-002''"
  by code_simp

subsection \<open>Vertex indices of faces\<close>

lemma parseFaceVertex_Inr:
  "parseFaceVertex n t = Inr fv \<Longrightarrow>
     (\<exists>k. faceVertexNumber t = Some k \<and> 1 \<le> k \<and> vertexIndex fv = k - 1)"
  by (auto simp: parseFaceVertex_def faceVertexNumber_def Let_def split: option.splits if_splits)

lemma parseFaceVertex_Inl:
  "parseFaceVertex n t = Inl e \<Longrightarrow>
     e = InvalidFaceVertexIndex n \<and>
     (case faceVertexNumber t of None \<Rightarrow> True | Some k \<Rightarrow> k < 1)"
  by (auto simp: parseFaceVertex_def faceVertexNumber_def Let_def split: option.splits if_splits)

lemma parseFace_Inr:
  "parseFace n fd = Inr face \<Longrightarrow>
     map vertexIndex face = map (\<lambda>t. the (faceVertexNumber t) - 1) fd \<and>
     (\<forall>t \<in> set fd. \<exists>k. faceVertexNumber t = Some k \<and> 1 \<le> k)"
proof (induction fd arbitrary: face)
  case Nil
  then show ?case by simp
next
  case (Cons t fd)
  from Cons.prems obtain fv fvs where fv: "parseFaceVertex n t = Inr fv"
    and fvs: "parseFace n fd = Inr fvs" and face: "face = fv # fvs"
    by (auto split: sum.splits)
  from parseFaceVertex_Inr[OF fv] Cons.IH[OF fvs] face show ?case by auto
qed

lemma parseFace_Inl:
  "parseFace n fd = Inl e \<Longrightarrow>
     e = InvalidFaceVertexIndex n \<and>
     (\<exists>t \<in> set fd. case faceVertexNumber t of None \<Rightarrow> True | Some k \<Rightarrow> k < 1)"
proof (induction fd)
  case Nil
  then show ?case by simp
next
  case (Cons t fd)
  show ?case
  proof (cases "parseFaceVertex n t")
    case (Inl e')
    with Cons.prems have "e' = e" by simp
    with parseFaceVertex_Inl[OF Inl] show ?thesis by simp
  next
    case (Inr fv)
    with Cons.prems have "parseFace n fd = Inl e" by (auto split: sum.splits)
    from Cons.IH[OF this] show ?thesis by auto
  qed
qed

lemma parseFace_nonneg: "parseFace n fd = Inr face \<Longrightarrow> \<forall>e \<in> set face. 0 \<le> vertexIndex e"
proof -
  assume a: "parseFace n fd = Inr face"
  have "\<forall>i \<in> set (map vertexIndex face). 0 \<le> i"
    using parseFace_Inr[OF a] by auto
  then show ?thesis by simp
qed

lemma faces_calculateBoundingBox: "faces (calculateBoundingBox p) = faces p"
  by (simp add: calculateBoundingBox_def Let_def)

lemma part_edit_faces_nonneg: "part_edit p p' \<Longrightarrow> faces_nonneg p \<Longrightarrow> faces_nonneg p'"
  unfolding part_edit_def faces_nonneg_def
  by (auto dest!: parseFace_nonneg)

lemma all_faces_nonneg_finalizePart: "all_faces_nonneg s \<Longrightarrow> all_faces_nonneg (finalizePart s)"
  by (cases "currentPart s")
     (auto simp: all_faces_nonneg_def finalizePart_def Let_def faces_nonneg_def
        faces_calculateBoundingBox)

lemma all_faces_nonneg_scan:
  "all_faces_nonneg (scanText t) \<and> all_faces_nonneg (finalizePart (scanText t))"
proof (rule analyzer_invariant)
  show "all_faces_nonneg analyzer_init"
    by (simp add: all_faces_nonneg_def analyzer_init_def)
  show "\<And>s. all_faces_nonneg s \<Longrightarrow> all_faces_nonneg (finalizePart s)"
    by (rule all_faces_nonneg_finalizePart)
  show "\<And>s nm. all_faces_nonneg s \<Longrightarrow> all_faces_nonneg (s\<lparr>currentPart := Some (newPart nm s)\<rparr>)"
    by (simp add: all_faces_nonneg_def faces_nonneg_def newPart_def)
  show "\<And>s p p'. all_faces_nonneg s \<Longrightarrow> currentPart s = Some p \<Longrightarrow> part_edit p p' \<Longrightarrow>
          all_faces_nonneg (s\<lparr>currentPart := Some p'\<rparr>)"
    by (simp add: all_faces_nonneg_def part_edit_faces_nonneg)
qed

lemma analyzeOBJ_faces_nonneg: "p \<in> set (analyzeOBJ v) \<Longrightarrow> faces_nonneg p"
  using all_faces_nonneg_scan[of "string_of v"]
  by (auto simp: analyzeOBJ_def Let_def all_faces_nonneg_def split: if_splits)

text \<open>
  C6, as the code has it. \<^verbatim>\<open>handleFace\<close> checks a vertex number from below only.
  Every corner recorded in a returned part has a vertex index of at least zero. With a
  part open and at least three corners on the line, the face is recorded, each index
  being the vertex number minus one, exactly when every corner starts with a number that
  is at least one; otherwise the line fails with the error of \<^verbatim>\<open>handleFace\<close> and
  nothing is recorded. The number of vertices of the part plays no role.
\<close>

theorem face_index_lower_bound_only:
  "(\<forall>p \<in> set (analyzeOBJ objContent). \<forall>f \<in> set (faces p). \<forall>e \<in> set f. 0 \<le> vertexIndex e) \<and>
   (currentPart s = Some q \<and> length faceData \<ge> 3 \<longrightarrow>
      (if \<forall>t \<in> set faceData. \<exists>k. faceVertexNumber t = Some k \<and> 1 \<le> k
       then \<exists>face. handleFace faceData lineNumber s =
                      Inr (s\<lparr>currentPart := Some (q\<lparr>faces := faces q @ [face]\<rparr>)\<rparr>) \<and>
                   map vertexIndex face = map (\<lambda>t. the (faceVertexNumber t) - 1) faceData
       else handleFace faceData lineNumber s = Inl (InvalidFaceVertexIndex lineNumber)))"
proof (intro conjI impI)
  show "\<forall>p \<in> set (analyzeOBJ objContent). \<forall>f \<in> set (faces p). \<forall>e \<in> set f. 0 \<le> vertexIndex e"
    using analyzeOBJ_faces_nonneg[of _ objContent] by (auto simp: faces_nonneg_def)
next
  assume a: "currentPart s = Some q \<and> length faceData \<ge> 3"
  show "if \<forall>t \<in> set faceData. \<exists>k. faceVertexNumber t = Some k \<and> 1 \<le> k
       then \<exists>face. handleFace faceData lineNumber s =
                      Inr (s\<lparr>currentPart := Some (q\<lparr>faces := faces q @ [face]\<rparr>)\<rparr>) \<and>
                   map vertexIndex face = map (\<lambda>t. the (faceVertexNumber t) - 1) faceData
       else handleFace faceData lineNumber s = Inl (InvalidFaceVertexIndex lineNumber)"
  proof (cases "parseFace lineNumber faceData")
    case (Inl e)
    from parseFace_Inl[OF Inl] obtain t where e: "e = InvalidFaceVertexIndex lineNumber"
      and t: "t \<in> set faceData" "case faceVertexNumber t of None \<Rightarrow> True | Some k \<Rightarrow> k < 1"
      by auto
    have bad: "\<not> (\<forall>t \<in> set faceData. \<exists>k. faceVertexNumber t = Some k \<and> 1 \<le> k)"
    proof
      assume "\<forall>t \<in> set faceData. \<exists>k. faceVertexNumber t = Some k \<and> 1 \<le> k"
      then obtain k where "faceVertexNumber t = Some k" "1 \<le> k" using t(1) by blast
      with t(2) show False by simp
    qed
    have "handleFace faceData lineNumber s = Inl (InvalidFaceVertexIndex lineNumber)"
      using a Inl e by (simp add: handleFace_def)
    with bad show ?thesis by simp
  next
    case (Inr face)
    from parseFace_Inr[OF Inr] have ok: "\<forall>t \<in> set faceData. \<exists>k. faceVertexNumber t = Some k \<and> 1 \<le> k"
      and vi: "map vertexIndex face = map (\<lambda>t. the (faceVertexNumber t) - 1) faceData"
      by auto
    have "handleFace faceData lineNumber s =
            Inr (s\<lparr>currentPart := Some (q\<lparr>faces := faces q @ [face]\<rparr>)\<rparr>)"
      using a Inr by (simp add: handleFace_def)
    with ok vi show ?thesis by auto
  qed
qed

lemma demo_faceVertexNumber:
  "faceVertexNumber ''1'' = Some 1" "faceVertexNumber ''2'' = Some 2"
  "faceVertexNumber ''9/3'' = Some 9" "faceVertexNumber ''0'' = Some 0"
  by code_simp+

theorem face_index_lower_bound_only_witness:
  "currentPart (handleObjectName ''A'' analyzer_init) = Some (newPart ''A'' analyzer_init) \<and>
   3 \<le> length [''1'', ''2'', ''9/3''] \<and>
   map (map (map vertexIndex) \<circ> faces)
     (analyzeOBJ (JString ''o A\<newline>v 0 0 0\<newline>v 1 1 1\<newline>f 1 2 9/3'')) = [[[0, 1, 8]]] \<and>
   (\<exists>face. handleFace [''1'', ''2'', ''9/3''] 4 (handleObjectName ''A'' analyzer_init) =
              Inr ((handleObjectName ''A'' analyzer_init)
                     \<lparr>currentPart := Some ((newPart ''A'' analyzer_init)
                        \<lparr>faces := faces (newPart ''A'' analyzer_init) @ [face]\<rparr>)\<rparr>) \<and>
            map vertexIndex face = [0, 1, 8]) \<and>
   handleFace [''1'', ''0'', ''2''] 4 (handleObjectName ''A'' analyzer_init) =
     Inl (InvalidFaceVertexIndex 4)"
proof -
  let ?s = "handleObjectName ''A'' analyzer_init"
  let ?q = "newPart ''A'' analyzer_init"
  have cur: "currentPart ?s = Some ?q"
    by (simp add: handleObjectName_def analyzer_init_def)
  have ev: "map (map (map vertexIndex) \<circ> faces)
     (analyzeOBJ (JString ''o A\<newline>v 0 0 0\<newline>v 1 1 1\<newline>f 1 2 9/3'')) = [[[0, 1, 8]]]"
    by code_simp
  have good: "\<forall>t \<in> set [''1'', ''2'', ''9/3'']. \<exists>k. faceVertexNumber t = Some k \<and> 1 \<le> k"
    by (simp add: demo_faceVertexNumber)
  have bad: "\<not> (\<forall>t \<in> set [''1'', ''0'', ''2'']. \<exists>k. faceVertexNumber t = Some k \<and> 1 \<le> k)"
    by (simp add: demo_faceVertexNumber)
  have 1: "\<exists>face. handleFace [''1'', ''2'', ''9/3''] 4 ?s =
              Inr (?s\<lparr>currentPart := Some (?q\<lparr>faces := faces ?q @ [face]\<rparr>)\<rparr>) \<and>
            map vertexIndex face = [0, 1, 8]"
    using face_index_lower_bound_only[of "JString []" ?s ?q "[''1'', ''2'', ''9/3'']" 4] cur good
    by (simp add: demo_faceVertexNumber)
  have 2: "handleFace [''1'', ''0'', ''2''] 4 ?s = Inl (InvalidFaceVertexIndex 4)"
    using face_index_lower_bound_only[of "JString []" ?s ?q "[''1'', ''0'', ''2'']" 4] cur bad
    by simp
  from cur ev 1 2 show ?thesis by simp
qed

text \<open>
  Indices beyond the vertices of the part are recorded. In the first text, a file with two
  objects whose faces count the vertices through the whole file (as the format has it),
  the face of \<^verbatim>\<open>B\<close> has the indices 2 and 3 while \<^verbatim>\<open>B\<close> has two vertices; in the
  second, the index 8 is recorded for a part of two vertices.
\<close>

theorem face_index_counterexample:
  "map (length \<circ> vertices)
     (analyzeOBJ (JString ''o A\<newline>v 0 0 0\<newline>v 1 1 1\<newline>f 1 2 1\<newline>o B\<newline>v 2 2 2\<newline>v 3 3 3\<newline>f 3 4 3'')) = [2, 2] \<and>
   map (map (map vertexIndex) \<circ> faces)
     (analyzeOBJ (JString ''o A\<newline>v 0 0 0\<newline>v 1 1 1\<newline>f 1 2 1\<newline>o B\<newline>v 2 2 2\<newline>v 3 3 3\<newline>f 3 4 3'')) = [[[0, 1, 0]], [[2, 3, 2]]] \<and>
   map (length \<circ> vertices)
     (analyzeOBJ (JString ''o A\<newline>v 0 0 0\<newline>v 1 1 1\<newline>f 1 2 9'')) = [2] \<and>
   map (map (map vertexIndex) \<circ> faces)
     (analyzeOBJ (JString ''o A\<newline>v 0 0 0\<newline>v 1 1 1\<newline>f 1 2 9'')) = [[[0, 1, 8]]]"
  by code_simp

subsection \<open>Group lines\<close>

text \<open>
  C9, as the code has it. With a part open, a \<^verbatim>\<open>g\<close> line whose name is that of the
  open part, or is empty (a bare \<^verbatim>\<open>g\<close>), changes nothing; a \<^verbatim>\<open>g\<close> line with any
  other name does exactly what the \<^verbatim>\<open>o\<close> line with that name does.
\<close>

theorem group_line_semantics:
  "currentPart s = Some p \<Longrightarrow>
     (nm = name p \<or> nm = [] \<longrightarrow> handleGroupName nm s = s) \<and>
     (nm \<noteq> name p \<and> nm \<noteq> [] \<longrightarrow> handleGroupName nm s = handleObjectName nm s)"
  by (auto simp: handleGroupName_def handleObjectName_finalizePart)

theorem group_line_semantics_witness:
  "currentPart (handleObjectName ''A'' analyzer_init) = Some (newPart ''A'' analyzer_init) \<and>
   name (newPart ''A'' analyzer_init) = ''A'' \<and>
   handleGroupName ''A'' (handleObjectName ''A'' analyzer_init) = handleObjectName ''A'' analyzer_init \<and>
   handleGroupName [] (handleObjectName ''A'' analyzer_init) = handleObjectName ''A'' analyzer_init \<and>
   handleGroupName ''B'' (handleObjectName ''A'' analyzer_init) =
     handleObjectName ''B'' (handleObjectName ''A'' analyzer_init)"
proof -
  let ?s = "handleObjectName ''A'' analyzer_init"
  have cur: "currentPart ?s = Some (newPart ''A'' analyzer_init)"
    by (simp add: handleObjectName_def analyzer_init_def)
  have nm: "name (newPart ''A'' analyzer_init) = ''A''" by (simp add: newPart_def)
  from group_line_semantics[OF cur, of "''A''"] group_line_semantics[OF cur, of "[]"]
    group_line_semantics[OF cur, of "''B''"] cur nm
  show ?thesis by simp
qed

text \<open>
  A bare \<^verbatim>\<open>g\<close> after \<^verbatim>\<open>o A\<close> and a vertex leaves the analyzer as it was, part
  \<^verbatim>\<open>A\<close> open with its vertex; a bare \<^verbatim>\<open>o\<close> in its place starts the part
  \<^verbatim>\<open>Part_1\<close>.
\<close>

theorem group_line_counterexample:
  "scanText ''o A\<newline>v 0 0 0\<newline>g'' = scanText ''o A\<newline>v 0 0 0'' \<and>
   map_option name (currentPart (scanText ''o A\<newline>v 0 0 0\<newline>g'')) = Some ''A'' \<and>
   map_option name (currentPart (scanText ''o A\<newline>v 0 0 0\<newline>o'')) = Some ''Part_1'' \<and>
   map_option vertices (currentPart (scanText ''o A\<newline>v 0 0 0\<newline>g'')) =
     Some [\<lparr>x_v = Fin 0, y_v = Fin 0, z_v = Fin 0\<rparr>] \<and>
   map_option vertices (currentPart (scanText ''o A\<newline>v 0 0 0\<newline>o'')) = Some []"
  by code_simp

section \<open>The manager: what each operation touches\<close>

subsection \<open>Association lists\<close>

lemma keys_update_present:
  "map_of al k = Some v \<Longrightarrow> map fst (AList.update k v' al) = map fst al"
  by (auto simp: update_keys dest: map_of_SomeD intro: rev_image_eqI)

lemma map_of_map_entries:
  "map_of (map (\<lambda>(k, m). (k, f k m)) al) k = map_option (f k) (map_of al k)"
  by (induction al) auto

lemma set_update_subset: "set (AList.update k v al) \<subseteq> insert (k, v) (set al)"
  by (induction al) auto

lemma map_of_rev_distinct: "distinct (map fst xs) \<Longrightarrow> map_of (rev xs) = map_of xs"
proof (induction xs)
  case Nil
  then show ?case by simp
next
  case (Cons x xs)
  obtain k v where x: "x = (k, v)" by (cases x)
  from Cons.prems x have "map_of xs k = None" by (simp add: map_of_eq_None_iff)
  with Cons x show ?case by (auto simp: fun_eq_iff map_add_def split: option.splits)
qed

subsection \<open>Section isolation\<close>

lemma maintain_entries:
  "partMeshes (maintainSectioningIsolation s) =
     (if sectionedPartId s = None then partMeshes s
      else map (\<lambda>(k, m). (k, m\<lparr>visible := (Some k = sectionedPartId s)\<rparr>)) (partMeshes s))"
  by (auto simp: maintainSectioningIsolation_def isInSectioningMode_def)

lemma maintain_other:
  "partsMap (maintainSectioningIsolation s) = partsMap s"
  "sectionedPartId (maintainSectioningIsolation s) = sectionedPartId s"
  "selectedPart (maintainSectioningIsolation s) = selectedPart s"
  "preIsolationState (maintainSectioningIsolation s) = preIsolationState s"
  "sectionPlanes (maintainSectioningIsolation s) = sectionPlanes s"
  by (simp_all add: maintainSectioningIsolation_def)

lemma maintain_keys: "map fst (partMeshes (maintainSectioningIsolation s)) = map fst (partMeshes s)"
  by (simp add: maintain_entries case_prod_beta)

lemma maintain_onlyVisible:
  "sectionedPartId s = Some a \<Longrightarrow> onlyVisible a (maintainSectioningIsolation s)"
  by (auto simp: maintain_entries onlyVisible_def)

lemma maintain_id: "sectionedPartId s = None \<Longrightarrow> maintainSectioningIsolation s = s"
  by (simp add: maintainSectioningIsolation_def isInSectioningMode_def)

lemma update_eq: "update s = maintainSectioningIsolation s"
  by (auto simp: update_def Let_def isInSectioningMode_def maintain_other split: option.splits)

lemma maintain_onlyVisible_iff:
  "sectionedPartId s = Some a \<Longrightarrow> onlyVisible a (update s)"
  by (simp add: update_eq maintain_onlyVisible)

subsection \<open>Hiding and showing\<close>

lemma registered_keys:
  "registered s k = (k \<in> set (map fst (partsMap s)) \<and> k \<in> set (map fst (partMeshes s)))"
  by (auto simp: registered_def map_of_eq_None_iff)

lemma setHidden_frame:
  "sectionedPartId (setHidden k h s) = sectionedPartId s"
  "map fst (partMeshes (setHidden k h s)) = map fst (partMeshes s)"
  "map fst (partsMap (setHidden k h s)) = map fst (partsMap s)"
  "preIsolationState (setHidden k h s) = preIsolationState s"
  "selectedPart (setHidden k h s) = selectedPart s"
  by (auto simp: setHidden_def hidePart_def showPart_def keys_update_present split: option.splits)

lemma setHidden_hiddenFlag:
  "hiddenFlag (setHidden k h s) = (if registered s k then (hiddenFlag s)(k \<mapsto> h) else hiddenFlag s)"
  by (auto simp: setHidden_def hidePart_def showPart_def registered_def hiddenFlag_def
        update_conv' fun_eq_iff split: option.splits)

lemma setHidden_meshVisible:
  "meshVisible (setHidden k h s) =
     (if registered s k then (meshVisible s)(k \<mapsto> \<not> h) else meshVisible s)"
  by (auto simp: setHidden_def hidePart_def showPart_def registered_def meshVisible_def
        update_conv' fun_eq_iff split: option.splits)

lemma setHidden_registered: "registered (setHidden k h s) = registered s"
  by (auto simp: setHidden_def hidePart_def showPart_def registered_def
        update_conv' fun_eq_iff split: option.splits)

lemma applyHidden_Nil: "applyHidden [] s = s"
  by (simp add: applyHidden_def)

lemma applyHidden_Cons: "applyHidden ((k, h) # xs) s = applyHidden xs (setHidden k h s)"
  by (simp add: applyHidden_def)

lemma applyHidden_frame:
  "sectionedPartId (applyHidden xs s) = sectionedPartId s"
  "map fst (partMeshes (applyHidden xs s)) = map fst (partMeshes s)"
  "map fst (partsMap (applyHidden xs s)) = map fst (partsMap s)"
  "preIsolationState (applyHidden xs s) = preIsolationState s"
  by (induction xs arbitrary: s; auto simp: applyHidden_Nil applyHidden_Cons setHidden_frame)+

lemma applyHidden_registered: "registered (applyHidden xs s) = registered s"
  by (induction xs arbitrary: s) (auto simp: applyHidden_Nil applyHidden_Cons setHidden_registered)

lemma applyHidden_hiddenFlag:
  "hiddenFlag (applyHidden xs s) k =
     (case map_of (rev xs) k of
        None \<Rightarrow> hiddenFlag s k
      | Some h \<Rightarrow> if registered s k then Some h else hiddenFlag s k)"
proof (induction xs arbitrary: s)
  case Nil
  then show ?case by (simp add: applyHidden_Nil)
next
  case (Cons x xs)
  obtain k0 h0 where x: "x = (k0, h0)" by (cases x)
  show ?case
    unfolding x applyHidden_Cons Cons.IH
    by (auto simp: setHidden_hiddenFlag setHidden_registered map_add_def split: option.splits)
qed

lemma applyHidden_meshVisible:
  "meshVisible (applyHidden xs s) k =
     (case map_of (rev xs) k of
        None \<Rightarrow> meshVisible s k
      | Some h \<Rightarrow> if registered s k then Some (\<not> h) else meshVisible s k)"
proof (induction xs arbitrary: s)
  case Nil
  then show ?case by (simp add: applyHidden_Nil)
next
  case (Cons x xs)
  obtain k0 h0 where x: "x = (k0, h0)" by (cases x)
  show ?case
    unfolding x applyHidden_Cons Cons.IH
    by (auto simp: setHidden_meshVisible setHidden_registered map_add_def split: option.splits)
qed

lemma isolatePart_applyHidden:
  "isolatePart a s =
     applyHidden (map (\<lambda>k. (k, k \<noteq> a)) (map fst (partsMap s)))
       (s\<lparr>preIsolationState :=
            Some (fold (\<lambda>(k, p) pre. AList.update k (isHidden p) pre) (partsMap s) [])\<rparr>)"
proof -
  have "fold (\<lambda>k st. if k \<noteq> a then hidePart k st else showPart k st) ks st =
        applyHidden (map (\<lambda>k. (k, k \<noteq> a)) ks) st" for ks st
    by (induction ks arbitrary: st) (simp_all add: applyHidden_Nil applyHidden_Cons setHidden_def)
  then show ?thesis by (simp add: isolatePart_def Let_def)
qed

lemma showAllParts_applyHidden:
  "showAllParts s =
     (case preIsolationState s of
        Some pre \<Rightarrow> applyHidden pre s
      | None \<Rightarrow> applyHidden (map (\<lambda>k. (k, False)) (map fst (partsMap s))) s)"
proof -
  have 1: "fold (\<lambda>(k, wasHidden) st. if wasHidden then hidePart k st else showPart k st) pre st =
        applyHidden pre st" for pre st
    by (induction pre arbitrary: st) (auto simp: applyHidden_Nil applyHidden_Cons setHidden_def)
  have 2: "fold (\<lambda>k st. showPart k st) ks st = applyHidden (map (\<lambda>k. (k, False)) ks) st" for ks st
    by (induction ks arbitrary: st) (simp_all add: applyHidden_Nil applyHidden_Cons setHidden_def)
  show ?thesis by (simp add: showAllParts_def 1 2 split: option.splits)
qed

lemma snapshot_fold:
  "map_of (fold (\<lambda>(k, p) pre. AList.update k (isHidden p) pre) al acc) =
     map_of acc ++ map_of (rev (map (\<lambda>(k, p). (k, isHidden p)) al))"
proof (induction al arbitrary: acc)
  case Nil
  then show ?case by simp
next
  case (Cons x al)
  obtain k p where x: "x = (k, p)" by (cases x)
  show ?case unfolding x
    by (simp add: Cons.IH update_conv' fun_eq_iff map_add_def split: option.splits)
qed

lemma snapshot_keys_distinct:
  "distinct (map fst acc) \<Longrightarrow>
     distinct (map fst (fold (\<lambda>(k, p) pre. AList.update k (isHidden p) pre) al acc))"
proof (induction al arbitrary: acc)
  case Nil
  then show ?case by simp
next
  case (Cons x al)
  obtain k p where x: "x = (k, p)" by (cases x)
  show ?case unfolding x using Cons.prems by (simp add: Cons.IH distinct_update)
qed

lemma snapshot_lookup:
  assumes "distinct (map fst (partsMap s))"
  shows "map_of (rev (fold (\<lambda>(k, p) pre. AList.update k (isHidden p) pre) (partsMap s) [])) k
         = hiddenFlag s k"
proof -
  let ?snap = "fold (\<lambda>(k, p) pre. AList.update k (isHidden p) pre) (partsMap s) []"
  have d: "distinct (map fst ?snap)" by (rule snapshot_keys_distinct) simp
  have dv: "distinct (map fst (map (\<lambda>(k, p). (k, isHidden p)) (partsMap s)))"
    using assms by (simp add: case_prod_beta comp_def)
  have "map_of (rev ?snap) k = map_of ?snap k" using map_of_rev_distinct[OF d] by simp
  also have "\<dots> = map_of (rev (map (\<lambda>(k, p). (k, isHidden p)) (partsMap s))) k"
    by (simp add: snapshot_fold)
  also have "\<dots> = map_of (map (\<lambda>(k, p). (k, isHidden p)) (partsMap s)) k"
    using map_of_rev_distinct[OF dv] by simp
  also have "\<dots> = hiddenFlag s k"
    by (simp add: hiddenFlag_def map_of_map_entries)
  finally show ?thesis .
qed

lemma togglePartVisibility_cases:
  "togglePartVisibility k s = s \<or> togglePartVisibility k s = setHidden k True s \<or>
   togglePartVisibility k s = setHidden k False s"
  by (auto simp: togglePartVisibility_def setHidden_def split: option.splits)

lemma isolatePart_frame:
  "sectionedPartId (isolatePart a s) = sectionedPartId s"
  "map fst (partMeshes (isolatePart a s)) = map fst (partMeshes s)"
  by (simp_all add: isolatePart_applyHidden applyHidden_frame)

lemma showAllParts_frame:
  "sectionedPartId (showAllParts s) = sectionedPartId s"
  "map fst (partMeshes (showAllParts s)) = map fst (partMeshes s)"
  by (simp_all add: showAllParts_applyHidden applyHidden_frame split: option.splits)

subsection \<open>Highlighting and selection\<close>

lemma highlightPart_frame:
  "sectionedPartId (highlightPart k s) = sectionedPartId s"
  "map fst (partMeshes (highlightPart k s)) = map fst (partMeshes s)"
  "selectedPart (highlightPart k s) = selectedPart s"
  by (auto simp: highlightPart_def keys_update_present split: option.splits)

lemma highlightPart_flags:
  "hiddenFlag (highlightPart k s) = hiddenFlag s"
  "meshVisible (highlightPart k s) = meshVisible s"
  by (auto simp: highlightPart_def hiddenFlag_def meshVisible_def update_conv' fun_eq_iff
        split: option.splits)

lemma removeHighlight_frame:
  "sectionedPartId (removeHighlight k s) = sectionedPartId s"
  "map fst (partMeshes (removeHighlight k s)) = map fst (partMeshes s)"
  "selectedPart (removeHighlight k s) = selectedPart s"
  by (auto simp: removeHighlight_def keys_update_present split: option.splits)

lemma removeHighlight_flags:
  "hiddenFlag (removeHighlight k s) = hiddenFlag s"
  "meshVisible (removeHighlight k s) = meshVisible s"
  by (auto simp: removeHighlight_def hiddenFlag_def meshVisible_def update_conv' fun_eq_iff
        split: option.splits)

lemma raw_update_flags:
  "hiddenFlag (s\<lparr>selectedPart := sel\<rparr>) = hiddenFlag s"
  "meshVisible (s\<lparr>selectedPart := sel\<rparr>) = meshVisible s"
  "hiddenFlag (s\<lparr>preIsolationState := pre\<rparr>) = hiddenFlag s"
  "meshVisible (s\<lparr>preIsolationState := pre\<rparr>) = meshVisible s"
  "registered (s\<lparr>selectedPart := sel\<rparr>) = registered s"
  "registered (s\<lparr>preIsolationState := pre\<rparr>) = registered s"
  by (simp_all add: hiddenFlag_def meshVisible_def registered_def fun_eq_iff)

lemma setSelected_frame:
  "sectionedPartId (setSelected k b s) = sectionedPartId s"
  "partMeshes (setSelected k b s) = partMeshes s"
  "selectedPart (setSelected k b s) = selectedPart s"
  by (simp_all add: setSelected_def split: option.splits)

lemma setSelected_flags:
  "hiddenFlag (setSelected k b s) = hiddenFlag s"
  "meshVisible (setSelected k b s) = meshVisible s"
  by (auto simp: setSelected_def hiddenFlag_def meshVisible_def update_conv' fun_eq_iff
        split: option.splits)

lemma deselectPart_frame:
  "sectionedPartId (deselectPart k s) = sectionedPartId s"
  "map fst (partMeshes (deselectPart k s)) = map fst (partMeshes s)"
  "selectedPart (deselectPart k s) = selectedPart s"
  by (auto simp: deselectPart_def maintain_other maintain_keys removeHighlight_frame
        setSelected_frame split: option.splits)

lemma deselectPart_flags:
  "sectionedPartId s = None \<Longrightarrow> hiddenFlag (deselectPart k s) = hiddenFlag s"
  "sectionedPartId s = None \<Longrightarrow> meshVisible (deselectPart k s) = meshVisible s"
  by (auto simp: deselectPart_def maintain_id removeHighlight_frame removeHighlight_flags
        setSelected_frame setSelected_flags split: option.splits)

lemma selectPart_frame:
  "sectionedPartId (selectPart k s) = sectionedPartId s"
  "map fst (partMeshes (selectPart k s)) = map fst (partMeshes s)"
  by (auto simp: selectPart_def Let_def maintain_other maintain_keys highlightPart_frame
        deselectPart_frame setSelected_frame split: option.splits)

lemma selectPart_flags:
  "sectionedPartId s = None \<Longrightarrow> hiddenFlag (selectPart k s) = hiddenFlag s"
  "sectionedPartId s = None \<Longrightarrow> meshVisible (selectPart k s) = meshVisible s"
  by (auto simp: selectPart_def Let_def maintain_id highlightPart_frame highlightPart_flags
        deselectPart_frame deselectPart_flags setSelected_frame setSelected_flags
        raw_update_flags split: option.splits)

lemma deselectAllParts_frame:
  "sectionedPartId (deselectAllParts s) = sectionedPartId s"
  "map fst (partMeshes (deselectAllParts s)) = map fst (partMeshes s)"
  by (auto simp: deselectAllParts_def maintain_other maintain_keys deselectPart_frame
        split: option.splits)

lemma deselectAllParts_flags:
  "sectionedPartId s = None \<Longrightarrow> hiddenFlag (deselectAllParts s) = hiddenFlag s"
  "sectionedPartId s = None \<Longrightarrow> meshVisible (deselectAllParts s) = meshVisible s"
  by (auto simp: deselectAllParts_def maintain_id deselectPart_frame deselectPart_flags
        raw_update_flags split: option.splits)

subsection \<open>Section planes\<close>

lemma updateSectionPlane_frame:
  "sectionedPartId (updateSectionPlane k pos s) = sectionedPartId s"
  "partMeshes (updateSectionPlane k pos s) = partMeshes s"
  "partsMap (updateSectionPlane k pos s) = partsMap s"
  by (auto simp: updateSectionPlane_def Let_def split: option.splits list.splits)

lemma onlyVisible_update:
  assumes "onlyVisible a s" and "map_of (partMeshes s) k = Some m" and "visible m' = visible m"
    and "partMeshes s' = AList.update k m' (partMeshes s)"
  shows "onlyVisible a s'"
proof -
  have km: "(k, m) \<in> set (partMeshes s)" using assms(2) by (rule map_of_SomeD)
  show ?thesis
    unfolding onlyVisible_def assms(4)
  proof (intro ballI, clarify)
    fix k' m'' assume "(k', m'') \<in> set (AList.update k m' (partMeshes s))"
    then have "(k', m'') = (k, m') \<or> (k', m'') \<in> set (partMeshes s)"
      using set_update_subset[of k m' "partMeshes s"] by auto
    then show "visible m'' = (k' = a)"
      using assms(1,3) km by (auto simp: onlyVisible_def)
  qed
qed

lemma onlyVisible_same: "partMeshes s' = partMeshes s \<Longrightarrow> onlyVisible a s' = onlyVisible a s"
  by (simp add: onlyVisible_def)

lemma switchToGreenHighlight_frame:
  "partsMap (switchToGreenHighlight k s) = partsMap s"
  "map fst (partMeshes (switchToGreenHighlight k s)) = map fst (partMeshes s)"
  "sectionedPartId (switchToGreenHighlight k s) = sectionedPartId s"
  "sectionPlanes (switchToGreenHighlight k s) = sectionPlanes s"
  by (auto simp: switchToGreenHighlight_def keys_update_present split: option.splits)

lemma switchToOrangeHighlight_frame:
  "partsMap (switchToOrangeHighlight k s) = partsMap s"
  "map fst (partMeshes (switchToOrangeHighlight k s)) = map fst (partMeshes s)"
  "sectionedPartId (switchToOrangeHighlight k s) = sectionedPartId s"
  "sectionPlanes (switchToOrangeHighlight k s) = sectionPlanes s"
  by (auto simp: switchToOrangeHighlight_def createHighlight2Material_def Let_def
        keys_update_present split: option.splits)

lemma switchToOrangeHighlight_onlyVisible:
  "onlyVisible a s \<Longrightarrow> onlyVisible a (switchToOrangeHighlight k s)"
proof -
  assume a: "onlyVisible a s"
  let ?s1 = "if highlight2Material s = None then createHighlight2Material s else s"
  have pm: "partMeshes ?s1 = partMeshes s" by (simp add: createHighlight2Material_def)
  have a1: "onlyVisible a ?s1" using a onlyVisible_same[OF pm] by simp
  show ?thesis
  proof (cases "map_of (partsMap s) k")
    case None
    then show ?thesis using a by (simp add: switchToOrangeHighlight_def)
  next
    case (Some p)
    show ?thesis
    proof (cases "map_of (partMeshes s) k")
      case None
      then show ?thesis using a Some by (simp add: switchToOrangeHighlight_def)
    next
      case (Some m)
      note m = Some
      show ?thesis
      proof (cases "isHighlighted p \<and> highlight2Material ?s1 \<noteq> None")
        case False
        then show ?thesis
          using a a1 m \<open>map_of (partsMap s) k = Some p\<close>
          by (auto simp: switchToOrangeHighlight_def Let_def)
      next
        case True
        then obtain h2 where h2: "highlight2Material ?s1 = Some h2" by auto
        have eq: "switchToOrangeHighlight k s =
            ?s1\<lparr>partMeshes := AList.update k (m\<lparr>mesh_material := h2\<rparr>) (partMeshes ?s1)\<rparr>"
          using True m \<open>map_of (partsMap s) k = Some p\<close> h2
          by (simp add: switchToOrangeHighlight_def Let_def)
        show ?thesis
          unfolding eq
          by (rule onlyVisible_update[OF a1, where k = k and m = m and m' = "m\<lparr>mesh_material := h2\<rparr>"])
             (simp_all add: pm m)
      qed
    qed
  qed
qed

lemma addClippingPlane_frame:
  "partsMap (addClippingPlane k sp s) = partsMap s"
  "partMeshes (addClippingPlane k sp s) = partMeshes s"
  "sectionedPartId (addClippingPlane k sp s) = sectionedPartId s"
  "sectionPlanes (addClippingPlane k sp s) = sectionPlanes s"
  by (auto simp: addClippingPlane_def createCrossSectionMaterial_def
        createCuttingPlaneVisualization_def Let_def split: option.splits)

lemma dropSectionObjects_frame:
  "partsMap (dropSectionObjects k s) = partsMap s"
  "partMeshes (dropSectionObjects k s) = partMeshes s"
  "selectedPart (dropSectionObjects k s) = selectedPart s"
  "map_of (sectionPlanes (dropSectionObjects k s)) = (map_of (sectionPlanes s))(k := None)"
  by (auto simp: dropSectionObjects_def Let_def delete_conv' fun_eq_iff split: option.splits)

lemma removeSectionPlane_frame:
  "partsMap (removeSectionPlane k s) = partsMap s"
  "map fst (partMeshes (removeSectionPlane k s)) = map fst (partMeshes s)"
  "sectionedPartId (removeSectionPlane k s) = None"
  "map_of (sectionPlanes (removeSectionPlane k s)) = (map_of (sectionPlanes s))(k := None)"
  by (simp_all add: removeSectionPlane_def Let_def switchToGreenHighlight_frame
        dropSectionObjects_frame case_prod_beta)

lemma switchToGreenHighlight_visible:
  assumes "\<forall>(k', m) \<in> set (partMeshes s). visible m"
  shows "\<forall>(k', m) \<in> set (partMeshes (switchToGreenHighlight k s)). visible m"
proof (cases "map_of (partsMap s) k")
  case None
  then show ?thesis using assms by (simp add: switchToGreenHighlight_def)
next
  case (Some p)
  show ?thesis
  proof (cases "map_of (partMeshes s) k")
    case None
    then show ?thesis using assms Some by (simp add: switchToGreenHighlight_def)
  next
    case (Some m)
    then have "(k, m) \<in> set (partMeshes s)" by (rule map_of_SomeD)
    with assms have vm: "visible m" by auto
    show ?thesis
      using assms vm Some \<open>map_of (partsMap s) k = Some p\<close>
        set_update_subset[of k "m\<lparr>mesh_material := highlightMaterial s\<rparr>" "partMeshes s"]
      by (auto simp: switchToGreenHighlight_def)
  qed
qed

lemma removeSectionPlane_all_visible:
  "\<forall>(k', m) \<in> set (partMeshes (removeSectionPlane k s)). visible m"
proof -
  let ?s3 = "dropSectionObjects k s"
  let ?s5 = "?s3\<lparr>partMeshes := map (\<lambda>(k, m). (k, m\<lparr>visible := True\<rparr>)) (partMeshes ?s3),
                 sectionedPartId := None\<rparr>"
  have pm5: "\<forall>(k', m) \<in> set (partMeshes ?s5). visible m" by auto
  have "removeSectionPlane k s = ?s5 \<or> removeSectionPlane k s = switchToGreenHighlight k ?s5"
    by (simp add: removeSectionPlane_def Let_def)
  with pm5 switchToGreenHighlight_visible[OF pm5, of k] show ?thesis by auto
qed

lemma removeSectionPlane_hiddenFlag: "hiddenFlag (removeSectionPlane k s) = hiddenFlag s"
  by (simp add: hiddenFlag_def removeSectionPlane_frame fun_eq_iff)

lemma createSectionPlane_unknown:
  "\<not> registered s k \<Longrightarrow> createSectionPlane k t pos s = (None, s)"
  by (auto simp: createSectionPlane_def registered_def split: option.splits)

lemma createSectionPlane_known:
  assumes "registered s a"
  shows "sectionedPartId (snd (createSectionPlane a t pos s)) = Some a"
    and "map fst (partMeshes (snd (createSectionPlane a t pos s))) = map fst (partMeshes s)"
    and "partsMap (snd (createSectionPlane a t pos s)) = partsMap s"
    and "onlyVisible a (snd (createSectionPlane a t pos s))"
    and "map_of (sectionPlanes (snd (createSectionPlane a t pos s))) =
           (map_of (sectionPlanes s))(a \<mapsto> \<lparr>planeType = t, position = pos\<rparr>)"
proof -
  from assms obtain p m where p: "map_of (partsMap s) a = Some p"
    and m: "map_of (partMeshes s) a = Some m"
    by (auto simp: registered_def)
  define s1 where "s1 = removeSectionPlane a s"
  define s2 where "s2 = s1\<lparr>partMeshes :=
      map (\<lambda>(k, om). if k \<noteq> a then (k, om\<lparr>visible := False\<rparr>) else (k, om)) (partMeshes s1)\<rparr>"
  define s3 where "s3 = forceSectioningMode a s2"
  define sp where "sp = \<lparr>planeType = t, position = pos\<rparr>"
  define s4 where "s4 = s3\<lparr>sectionPlanes := AList.update a sp (sectionPlanes s3)\<rparr>"
  define s5 where "s5 = switchToOrangeHighlight a s4"
  define s6 where "s6 = addClippingPlane a sp s5"
  have res: "snd (createSectionPlane a t pos s) = s6"
    by (simp add: createSectionPlane_def p m Let_def s1_def s2_def s3_def s4_def s5_def s6_def
        sp_def)
  have "map fst (map (\<lambda>(k, om). if k \<noteq> a then (k, om\<lparr>visible := False\<rparr>) else (k, om)) al) =
        map fst al" for al :: "(partId \<times> mesh) list"
    by (induction al) auto
  from this[of "partMeshes s1"] have "map fst (partMeshes s2) = map fst (partMeshes s1)"
    by (simp add: s2_def)
  then have k2: "map fst (partMeshes s2) = map fst (partMeshes s)"
    by (simp add: s1_def removeSectionPlane_frame)
  have f3: "sectionedPartId s3 = Some a"
    by (simp add: s3_def forceSectioningMode_def maintain_other)
  have k3: "map fst (partMeshes s3) = map fst (partMeshes s)"
    by (simp add: s3_def forceSectioningMode_def maintain_keys k2)
  have v3: "onlyVisible a s3"
    unfolding s3_def forceSectioningMode_def by (rule maintain_onlyVisible) simp
  have p3: "partsMap s3 = partsMap s"
    by (simp add: s3_def forceSectioningMode_def maintain_other s2_def s1_def
        removeSectionPlane_frame)
  have sp3: "map_of (sectionPlanes s3) = (map_of (sectionPlanes s))(a := None)"
    by (simp add: s3_def forceSectioningMode_def maintain_other s2_def s1_def
        removeSectionPlane_frame)
  have v4: "onlyVisible a s4" using v3 by (simp add: s4_def onlyVisible_def)
  have v5: "onlyVisible a s5" unfolding s5_def by (rule switchToOrangeHighlight_onlyVisible[OF v4])
  show "sectionedPartId (snd (createSectionPlane a t pos s)) = Some a"
    by (simp add: res s6_def s5_def s4_def addClippingPlane_frame switchToOrangeHighlight_frame f3)
  show "map fst (partMeshes (snd (createSectionPlane a t pos s))) = map fst (partMeshes s)"
    by (simp add: res s6_def s5_def s4_def addClippingPlane_frame switchToOrangeHighlight_frame
        k3)
  show "partsMap (snd (createSectionPlane a t pos s)) = partsMap s"
    by (simp add: res s6_def s5_def s4_def addClippingPlane_frame switchToOrangeHighlight_frame
        p3)
  show "onlyVisible a (snd (createSectionPlane a t pos s))"
    using v5 by (simp add: res s6_def onlyVisible_def addClippingPlane_frame)
  show "map_of (sectionPlanes (snd (createSectionPlane a t pos s))) =
           (map_of (sectionPlanes s))(a \<mapsto> \<lparr>planeType = t, position = pos\<rparr>)"
    by (simp add: res s6_def s5_def s4_def addClippingPlane_frame switchToOrangeHighlight_frame
        update_conv' sp3 sp_def)
qed

lemma createSectionPlane_registered:
  "registered (snd (createSectionPlane a t pos s)) k = registered s k"
proof (cases "registered s a")
  case True
  then show ?thesis by (simp add: registered_keys createSectionPlane_known)
next
  case False
  then show ?thesis by (simp add: createSectionPlane_unknown)
qed

subsection \<open>Sequences of operations\<close>

lemma apply_operation_frame:
  "sectionedPartId (apply_operation x s) = sectionedPartId s \<and>
   map fst (partMeshes (apply_operation x s)) = map fst (partMeshes s)"
proof (cases x)
  case (TogglePartVisibility k)
  then show ?thesis
    using togglePartVisibility_cases[of k s] by (auto simp: setHidden_frame)
next
  case (HidePart k)
  then show ?thesis using setHidden_frame(1,2)[of k True s] by (simp add: setHidden_def)
next
  case (ShowPart k)
  then show ?thesis using setHidden_frame(1,2)[of k False s] by (simp add: setHidden_def)
qed (simp_all add: selectPart_frame deselectPart_frame deselectAllParts_frame
      highlightPart_frame removeHighlight_frame isolatePart_frame showAllParts_frame
      updateSectionPlane_frame update_eq maintain_other maintain_keys)

lemma run_frame:
  "sectionedPartId (run ops s) = sectionedPartId s \<and>
   map fst (partMeshes (run ops s)) = map fst (partMeshes s)"
  unfolding run_def
  by (induction ops arbitrary: s) (simp_all add: apply_operation_frame)

lemma apply_section_operation_frame:
  assumes "sectionedPartId s = Some a" and "keeps_section a x s"
  shows "sectionedPartId (apply_section_operation x s) = Some a \<and>
         map fst (partMeshes (apply_section_operation x s)) = map fst (partMeshes s)"
proof (cases x)
  case (Plain y)
  then show ?thesis using assms(1) apply_operation_frame[of y s] by simp
next
  case (CreateSectionPlane k t pos)
  show ?thesis
  proof (cases "registered s k")
    case True
    with assms(2) CreateSectionPlane have "k = a" by simp
    with True CreateSectionPlane show ?thesis
      by (simp add: createSectionPlane_known)
  next
    case False
    with CreateSectionPlane assms(1) show ?thesis by (simp add: createSectionPlane_unknown)
  qed
next
  case (RemoveSectionPlane k)
  with assms(2) show ?thesis by simp
qed

lemma run_section_frame:
  "sectionedPartId s = Some a \<Longrightarrow> in_window a ops s \<Longrightarrow>
     sectionedPartId (run_section ops s) = Some a \<and>
     map fst (partMeshes (run_section ops s)) = map fst (partMeshes s)"
proof (induction ops arbitrary: s)
  case Nil
  then show ?case by simp
next
  case (Cons x ops)
  from Cons.prems have k: "keeps_section a x s"
    and w: "in_window a ops (apply_section_operation x s)" by simp_all
  from apply_section_operation_frame[OF Cons.prems(1) k]
  have f: "sectionedPartId (apply_section_operation x s) = Some a"
    and m: "map fst (partMeshes (apply_section_operation x s)) = map fst (partMeshes s)"
    by simp_all
  from Cons.IH[OF f w] m show ?case by simp
qed

lemma lockstep_cong:
  "hiddenFlag s' = hiddenFlag s \<Longrightarrow> meshVisible s' = meshVisible s \<Longrightarrow> lockstep s' = lockstep s"
  by (simp add: lockstep_def)

lemma lockstep_setHidden: "lockstep s \<Longrightarrow> lockstep (setHidden k h s)"
  by (auto simp: lockstep_def setHidden_hiddenFlag setHidden_meshVisible split: if_splits)

lemma lockstep_applyHidden: "lockstep s \<Longrightarrow> lockstep (applyHidden xs s)"
  by (induction xs arbitrary: s) (auto simp: applyHidden_Nil applyHidden_Cons lockstep_setHidden)

lemma lockstep_apply_operation:
  assumes "lockstep s" and "sectionedPartId s = None"
  shows "lockstep (apply_operation x s)"
proof (cases x)
  case (SelectPart k)
  then show ?thesis using assms lockstep_cong[OF selectPart_flags[OF assms(2)]] by simp
next
  case (DeselectPart k)
  then show ?thesis using assms lockstep_cong[OF deselectPart_flags[OF assms(2)]] by simp
next
  case DeselectAllParts
  then show ?thesis using assms lockstep_cong[OF deselectAllParts_flags[OF assms(2)]] by simp
next
  case (HighlightPart k)
  then show ?thesis using assms lockstep_cong[OF highlightPart_flags] by simp
next
  case (RemoveHighlight k)
  then show ?thesis using assms lockstep_cong[OF removeHighlight_flags] by simp
next
  case (HidePart k)
  then show ?thesis using lockstep_setHidden[OF assms(1), of k True] by (simp add: setHidden_def)
next
  case (ShowPart k)
  then show ?thesis using lockstep_setHidden[OF assms(1), of k False] by (simp add: setHidden_def)
next
  case (TogglePartVisibility k)
  then show ?thesis
    using togglePartVisibility_cases[of k s] assms(1) lockstep_setHidden[OF assms(1)] by auto
next
  case (IsolatePart k)
  have "lockstep (s\<lparr>preIsolationState := pre\<rparr>)" for pre
    using assms(1) by (simp add: lockstep_def raw_update_flags)
  with IsolatePart show ?thesis by (simp add: isolatePart_applyHidden lockstep_applyHidden)
next
  case ShowAllParts
  then show ?thesis
    using assms(1) by (simp add: showAllParts_applyHidden lockstep_applyHidden split: option.splits)
next
  case (UpdateSectionPlane k pos)
  have "lockstep (updateSectionPlane k pos s) = lockstep s"
    by (rule lockstep_cong)
       (simp_all add: hiddenFlag_def meshVisible_def updateSectionPlane_frame fun_eq_iff)
  with UpdateSectionPlane assms show ?thesis by simp
next
  case Update
  then show ?thesis using assms by (simp add: update_eq maintain_id)
qed

lemma demo_registered:
  "map_of (partsMap demo_manager) ''P-001'' \<noteq> None"
  "map_of (partMeshes demo_manager) ''P-001'' \<noteq> None"
  "map_of (partsMap demo_manager) ''P-002'' \<noteq> None"
  "map_of (partMeshes demo_manager) ''P-002'' \<noteq> None"
  "map_of (partsMap demo_manager) ''P-999'' = None"
  "map_of (partMeshes demo_manager) ''P-999'' = None"
  by code_simp+

lemma lockstep_demo: "lockstep demo_manager"
proof -
  have "map (isHidden \<circ> snd) (partsMap demo_manager) = [False, False]"
    and "map (visible \<circ> snd) (partMeshes demo_manager) = [True, True]"
    and "map fst (partsMap demo_manager) = [''P-001'', ''P-002'']"
    and "map fst (partMeshes demo_manager) = [''P-001'', ''P-002'']"
    by code_simp+
  then obtain p1 p2 m1 m2 where "partsMap demo_manager = [(''P-001'', p1), (''P-002'', p2)]"
    "partMeshes demo_manager = [(''P-001'', m1), (''P-002'', m2)]"
    "\<not> isHidden p1" "\<not> isHidden p2" "visible m1" "visible m2"
    by (auto simp: map_eq_Cons_conv)
  then show ?thesis
    by (auto simp: lockstep_def hiddenFlag_def meshVisible_def split: if_splits)
qed

section \<open>Properties of the part manager\<close>

text \<open>
  C1, as the code has it. After \<^verbatim>\<open>createSectionPlane\<close> for a registered part \<open>a\<close>,
  and for as long as \<^verbatim>\<open>removeSectionPlane\<close> is not called for any id and
  \<^verbatim>\<open>createSectionPlane\<close> is not called for another registered part, whatever
  selections, highlights, hidings, showings, isolations, show-alls, moves of a section
  plane and ticks happen in between, after the next tick of \<^verbatim>\<open>update\<close> the mesh of
  \<open>a\<close> is visible and the mesh of every other part is not.
\<close>

theorem section_isolation_window:
  assumes "map_of (partsMap s) a \<noteq> None" and "map_of (partMeshes s) a \<noteq> None"
    and "in_window a ops (snd (createSectionPlane a t pos s))"
  shows "(\<forall>(k, m) \<in> set (partMeshes (update (run_section ops (snd (createSectionPlane a t pos s))))).
            visible m = (k = a)) \<and>
         a \<in> fst ` set (partMeshes (update (run_section ops (snd (createSectionPlane a t pos s)))))"
proof -
  have reg: "registered s a" using assms(1,2) by (simp add: registered_def)
  let ?s1 = "snd (createSectionPlane a t pos s)"
  let ?s2 = "run_section ops ?s1"
  have f1: "sectionedPartId ?s1 = Some a" by (rule createSectionPlane_known(1)[OF reg])
  have f: "sectionedPartId ?s2 = Some a"
    using run_section_frame[OF f1 assms(3)] by simp
  have k: "map fst (partMeshes ?s2) = map fst (partMeshes s)"
    using run_section_frame[OF f1 assms(3)] createSectionPlane_known(2)[OF reg] by simp
  have "onlyVisible a (update ?s2)" using f by (rule maintain_onlyVisible_iff)
  moreover have "map fst (partMeshes (update ?s2)) = map fst (partMeshes s)"
    by (simp add: update_eq maintain_keys k)
  moreover have "a \<in> set (map fst (partMeshes s))"
    using reg by (simp add: registered_keys)
  ultimately show ?thesis
    unfolding onlyVisible_def by (metis set_map)
qed

theorem section_isolation_window_witness:
  "map_of (partsMap demo_manager) ''P-001'' \<noteq> None \<and>
   map_of (partMeshes demo_manager) ''P-001'' \<noteq> None \<and>
   in_window ''P-001''
      [Plain (SelectPart ''P-002''), Plain (HidePart ''P-001''), Plain (IsolatePart ''P-002''),
       Plain Update, CreateSectionPlane ''P-999'' ''XZ'' 0, Plain ShowAllParts,
       CreateSectionPlane ''P-001'' ''YZ'' (1/4), Plain DeselectAllParts]
      (snd (createSectionPlane ''P-001'' ''XY'' (1/2) demo_manager)) \<and>
   ''P-001'' \<in> fst ` set (partMeshes (update (run_section
      [Plain (SelectPart ''P-002''), Plain (HidePart ''P-001''), Plain (IsolatePart ''P-002''),
       Plain Update, CreateSectionPlane ''P-999'' ''XZ'' 0, Plain ShowAllParts,
       CreateSectionPlane ''P-001'' ''YZ'' (1/4), Plain DeselectAllParts]
      (snd (createSectionPlane ''P-001'' ''XY'' (1/2) demo_manager))))) \<and>
   map fst (partMeshes (update (run_section
      [Plain (SelectPart ''P-002''), Plain (HidePart ''P-001''), Plain (IsolatePart ''P-002''),
       Plain Update, CreateSectionPlane ''P-999'' ''XZ'' 0, Plain ShowAllParts,
       CreateSectionPlane ''P-001'' ''YZ'' (1/4), Plain DeselectAllParts]
      (snd (createSectionPlane ''P-001'' ''XY'' (1/2) demo_manager))))) = [''P-001'', ''P-002''] \<and>
   map (visible \<circ> snd) (partMeshes (update (run_section
      [Plain (SelectPart ''P-002''), Plain (HidePart ''P-001''), Plain (IsolatePart ''P-002''),
       Plain Update, CreateSectionPlane ''P-999'' ''XZ'' 0, Plain ShowAllParts,
       CreateSectionPlane ''P-001'' ''YZ'' (1/4), Plain DeselectAllParts]
      (snd (createSectionPlane ''P-001'' ''XY'' (1/2) demo_manager))))) = [True, False]"
proof -
  let ?ops = "[Plain (SelectPart ''P-002''), Plain (HidePart ''P-001''), Plain (IsolatePart ''P-002''),
       Plain Update, CreateSectionPlane ''P-999'' ''XZ'' 0, Plain ShowAllParts,
       CreateSectionPlane ''P-001'' ''YZ'' (1/4), Plain DeselectAllParts]"
  have w: "in_window ''P-001'' ?ops (snd (createSectionPlane ''P-001'' ''XY'' (1/2) demo_manager))"
    by code_simp
  note T = section_isolation_window[OF demo_registered(1,2) w]
  have c: "map fst (partMeshes (update (run_section ?ops
      (snd (createSectionPlane ''P-001'' ''XY'' (1/2) demo_manager))))) = [''P-001'', ''P-002'']"
    "map (visible \<circ> snd) (partMeshes (update (run_section ?ops
      (snd (createSectionPlane ''P-001'' ''XY'' (1/2) demo_manager))))) = [True, False]"
    by code_simp+
  from T demo_registered(1,2) w c show ?thesis by blast
qed

text \<open>
  The section of a part does not last until \<^verbatim>\<open>removeSectionPlane\<close> is called for
  that part. After \<^verbatim>\<open>P-001\<close> is sectioned, \<^verbatim>\<open>removeSectionPlane\<close> for \<^verbatim>\<open>P-002\<close>,
  or for an unknown id, makes every mesh visible and ends section mode, so that the tick
  leaves both meshes visible while the section plane of \<^verbatim>\<open>P-001\<close> is still filed;
  and \<^verbatim>\<open>createSectionPlane\<close> for \<^verbatim>\<open>P-002\<close> makes \<^verbatim>\<open>P-002\<close> the one visible
  part.
\<close>

theorem section_isolation_counterexample:
  "map (visible \<circ> snd) (partMeshes (update (removeSectionPlane ''P-002''
      (snd (createSectionPlane ''P-001'' ''XY'' (1/2) demo_manager))))) = [True, True] \<and>
   sectionedPartId (update (removeSectionPlane ''P-002''
      (snd (createSectionPlane ''P-001'' ''XY'' (1/2) demo_manager)))) = None \<and>
   map_of (sectionPlanes (update (removeSectionPlane ''P-002''
      (snd (createSectionPlane ''P-001'' ''XY'' (1/2) demo_manager))))) ''P-001''
     = Some \<lparr>planeType = ''XY'', position = 1/2\<rparr> \<and>
   map (visible \<circ> snd) (partMeshes (update (removeSectionPlane ''P-999''
      (snd (createSectionPlane ''P-001'' ''XY'' (1/2) demo_manager))))) = [True, True] \<and>
   map (visible \<circ> snd) (partMeshes (update (snd (createSectionPlane ''P-002'' ''XY'' (- 3/10)
      (snd (createSectionPlane ''P-001'' ''XY'' (1/2) demo_manager)))))) = [False, True] \<and>
   map_of (sectionPlanes (update (snd (createSectionPlane ''P-002'' ''XY'' (- 3/10)
      (snd (createSectionPlane ''P-001'' ''XY'' (1/2) demo_manager)))))) ''P-001''
     = Some \<lparr>planeType = ''XY'', position = 1/2\<rparr>"
  by code_simp

text \<open>
  C2, as the code has it. \<^verbatim>\<open>createSectionPlane\<close> removes the section of the part it is
  called for, not the section of another part. After sectioning \<open>a\<close> and then \<open>b\<close>, two
  distinct registered parts, \<^verbatim>\<open>sectionedPartId\<close> is \<open>b\<close> and only the mesh of \<open>b\<close> is
  visible, and the section plane of \<open>a\<close> is still filed under \<open>a\<close>.
\<close>

theorem second_section_keeps_first:
  assumes "map_of (partsMap s) a \<noteq> None" and "map_of (partMeshes s) a \<noteq> None"
    and "map_of (partsMap s) b \<noteq> None" and "map_of (partMeshes s) b \<noteq> None"
    and "a \<noteq> b"
  shows "sectionedPartId (snd (createSectionPlane b tb pb (snd (createSectionPlane a ta pa s)))) = Some b \<and>
         (\<forall>(k, m) \<in> set (partMeshes (snd (createSectionPlane b tb pb (snd (createSectionPlane a ta pa s))))).
            visible m = (k = b)) \<and>
         map_of (sectionPlanes (snd (createSectionPlane b tb pb (snd (createSectionPlane a ta pa s))))) a
           = Some \<lparr>planeType = ta, position = pa\<rparr>"
proof -
  have ra: "registered s a" and rb: "registered s b" using assms by (simp_all add: registered_def)
  let ?s1 = "snd (createSectionPlane a ta pa s)"
  have rb1: "registered ?s1 b" using rb by (simp add: createSectionPlane_registered)
  have "map_of (sectionPlanes (snd (createSectionPlane b tb pb ?s1))) a = map_of (sectionPlanes ?s1) a"
    using assms(5) by (simp add: createSectionPlane_known(5)[OF rb1])
  also have "\<dots> = Some \<lparr>planeType = ta, position = pa\<rparr>"
    by (simp add: createSectionPlane_known(5)[OF ra])
  finally show ?thesis
    using createSectionPlane_known(1)[OF rb1] createSectionPlane_known(4)[OF rb1]
    by (simp add: onlyVisible_def)
qed

theorem second_section_keeps_first_witness:
  "map_of (partsMap demo_manager) ''P-001'' \<noteq> None \<and>
   map_of (partMeshes demo_manager) ''P-001'' \<noteq> None \<and>
   map_of (partsMap demo_manager) ''P-002'' \<noteq> None \<and>
   map_of (partMeshes demo_manager) ''P-002'' \<noteq> None \<and>
   ''P-001'' \<noteq> ''P-002'' \<and>
   sectionedPartId (snd (createSectionPlane ''P-002'' ''XY'' (- 3/10)
      (snd (createSectionPlane ''P-001'' ''XY'' (1/2) demo_manager)))) = Some ''P-002'' \<and>
   map (visible \<circ> snd) (partMeshes (snd (createSectionPlane ''P-002'' ''XY'' (- 3/10)
      (snd (createSectionPlane ''P-001'' ''XY'' (1/2) demo_manager))))) = [False, True] \<and>
   map_of (sectionPlanes (snd (createSectionPlane ''P-002'' ''XY'' (- 3/10)
      (snd (createSectionPlane ''P-001'' ''XY'' (1/2) demo_manager))))) ''P-001''
     = Some \<lparr>planeType = ''XY'', position = 1/2\<rparr>"
proof -
  have ne: "''P-001'' \<noteq> ''P-002''" by simp
  note T = second_section_keeps_first[OF demo_registered(1,2,3,4) ne,
      of "''XY''" "- 3/10" "''XY''" "1/2"]
  have c: "map (visible \<circ> snd) (partMeshes (snd (createSectionPlane ''P-002'' ''XY'' (- 3/10)
      (snd (createSectionPlane ''P-001'' ''XY'' (1/2) demo_manager))))) = [False, True]"
    by code_simp
  from T demo_registered(1,2,3,4) ne c show ?thesis by blast
qed

text \<open>
  The first part is not restored. With nothing selected, the material of the mesh of
  \<^verbatim>\<open>P-001\<close> still carries the clipping plane of its section after \<^verbatim>\<open>P-002\<close> is
  sectioned; with \<^verbatim>\<open>P-001\<close> selected beforehand, its mesh in addition keeps the
  second highlight material, the one used for a sectioned part.
\<close>

theorem second_section_counterexample:
  "sectionedPartId (snd (createSectionPlane ''P-002'' ''XY'' (- 3/10)
      (snd (createSectionPlane ''P-001'' ''XY'' (1/2) demo_manager)))) = Some ''P-002'' \<and>
   map_of (sectionPlanes (snd (createSectionPlane ''P-002'' ''XY'' (- 3/10)
      (snd (createSectionPlane ''P-001'' ''XY'' (1/2) demo_manager))))) ''P-001''
     = Some \<lparr>planeType = ''XY'', position = 1/2\<rparr> \<and>
   map_option mesh_material (map_of (partMeshes (snd (createSectionPlane ''P-002'' ''XY'' (- 3/10)
      (snd (createSectionPlane ''P-001'' ''XY'' (1/2) demo_manager))))) ''P-001'')
     = Some (External 0) \<and>
   clippingPlanes (materials (snd (createSectionPlane ''P-002'' ''XY'' (- 3/10)
      (snd (createSectionPlane ''P-001'' ''XY'' (1/2) demo_manager)))) (External 0))
     = Some [\<lparr>planeType = ''XY'', position = 1/2\<rparr>] \<and>
   highlight2Material (snd (createSectionPlane ''P-002'' ''XY'' (- 3/10)
      (snd (createSectionPlane ''P-001'' ''XY'' (1/2) (selectPart ''P-001'' demo_manager)))))
     = Some (Own 2) \<and>
   map_option mesh_material (map_of (partMeshes (snd (createSectionPlane ''P-002'' ''XY'' (- 3/10)
      (snd (createSectionPlane ''P-001'' ''XY'' (1/2) (selectPart ''P-001'' demo_manager)))))) ''P-001'')
     = Some (Own 2) \<and>
   clippingPlanes (materials (snd (createSectionPlane ''P-002'' ''XY'' (- 3/10)
      (snd (createSectionPlane ''P-001'' ''XY'' (1/2) (selectPart ''P-001'' demo_manager))))) (Own 2))
     = Some [\<lparr>planeType = ''XY'', position = 1/2\<rparr>]"
  by code_simp

text \<open>
  C3, as the code has it. For an id that is a key of neither \<^verbatim>\<open>parts\<close> nor
  \<^verbatim>\<open>partMeshes\<close>, the operations that look the part up before they act
  (\<^verbatim>\<open>hidePart\<close>, \<^verbatim>\<open>showPart\<close>, \<^verbatim>\<open>togglePartVisibility\<close>, \<^verbatim>\<open>highlightPart\<close>,
  \<^verbatim>\<open>removeHighlight\<close>, \<^verbatim>\<open>createSectionPlane\<close>, \<^verbatim>\<open>updateSectionPlane\<close>) leave the
  whole state as it is; \<^verbatim>\<open>createSectionPlane\<close> returns \<^verbatim>\<open>null\<close>. None of them has
  an error to throw. \<^verbatim>\<open>removeSectionPlane\<close> of such an id has none either, but it
  makes every mesh visible and clears \<^verbatim>\<open>sectionedPartId\<close>.
\<close>

theorem unknown_id_guarded:
  assumes "map_of (partsMap s) k = None" and "map_of (partMeshes s) k = None"
  shows "hidePart k s = s \<and> showPart k s = s \<and> togglePartVisibility k s = s \<and>
         highlightPart k s = s \<and> removeHighlight k s = s \<and>
         createSectionPlane k t pos s = (None, s) \<and> updateSectionPlane k pos s = s \<and>
         sectionedPartId (removeSectionPlane k s) = None \<and>
         (\<forall>(k', m) \<in> set (partMeshes (removeSectionPlane k s)). visible m)"
proof -
  have "hidePart k s = s \<and> showPart k s = s \<and> togglePartVisibility k s = s \<and>
         highlightPart k s = s \<and> removeHighlight k s = s \<and>
         createSectionPlane k t pos s = (None, s) \<and> updateSectionPlane k pos s = s"
    using assms
    by (simp add: hidePart_def showPart_def togglePartVisibility_def highlightPart_def
        removeHighlight_def createSectionPlane_def updateSectionPlane_def split: option.splits)
  then show ?thesis
    using removeSectionPlane_frame(3)[of k s] removeSectionPlane_all_visible[of k s] by blast
qed

theorem unknown_id_guarded_witness:
  "map_of (partsMap demo_manager) ''P-999'' = None \<and>
   map_of (partMeshes demo_manager) ''P-999'' = None \<and>
   hidePart ''P-999'' demo_manager = demo_manager \<and>
   showPart ''P-999'' demo_manager = demo_manager \<and>
   togglePartVisibility ''P-999'' demo_manager = demo_manager \<and>
   highlightPart ''P-999'' demo_manager = demo_manager \<and>
   removeHighlight ''P-999'' demo_manager = demo_manager \<and>
   createSectionPlane ''P-999'' ''XY'' (1/2) demo_manager = (None, demo_manager) \<and>
   updateSectionPlane ''P-999'' (1/2) demo_manager = demo_manager \<and>
   sectionedPartId (removeSectionPlane ''P-999'' demo_manager) = None \<and>
   map (visible \<circ> snd) (partMeshes (removeSectionPlane ''P-999'' demo_manager)) = [True, True]"
proof -
  have c: "map (visible \<circ> snd) (partMeshes (removeSectionPlane ''P-999'' demo_manager))
             = [True, True]"
    by code_simp
  from unknown_id_guarded[OF demo_registered(5,6), of "''XY''" "1/2"] demo_registered(5,6) c
  show ?thesis by blast
qed

text \<open>
  \<^verbatim>\<open>removeSectionPlane\<close> and \<^verbatim>\<open>selectPart\<close> are not without effect for an unknown id.
  With \<^verbatim>\<open>P-001\<close> selected and sectioned, \<^verbatim>\<open>removeSectionPlane\<close> of an unknown id
  makes every mesh visible and leaves section mode, and \<^verbatim>\<open>selectPart\<close> of an unknown
  id deselects \<^verbatim>\<open>P-001\<close> and stores the unknown id as the selection.
\<close>

theorem unknown_id_counterexample:
  "map_of (partsMap (snd (createSectionPlane ''P-001'' ''XY'' (1/2) (selectPart ''P-001'' demo_manager)))) ''P-999'' = None \<and>
   map_of (partMeshes (snd (createSectionPlane ''P-001'' ''XY'' (1/2) (selectPart ''P-001'' demo_manager)))) ''P-999'' = None \<and>
   sectionedPartId (snd (createSectionPlane ''P-001'' ''XY'' (1/2) (selectPart ''P-001'' demo_manager))) = Some ''P-001'' \<and>
   map (visible \<circ> snd) (partMeshes (snd (createSectionPlane ''P-001'' ''XY'' (1/2) (selectPart ''P-001'' demo_manager)))) = [True, False] \<and>
   sectionedPartId (removeSectionPlane ''P-999''
      (snd (createSectionPlane ''P-001'' ''XY'' (1/2) (selectPart ''P-001'' demo_manager)))) = None \<and>
   map (visible \<circ> snd) (partMeshes (removeSectionPlane ''P-999''
      (snd (createSectionPlane ''P-001'' ''XY'' (1/2) (selectPart ''P-001'' demo_manager))))) = [True, True] \<and>
   selectedPart (snd (createSectionPlane ''P-001'' ''XY'' (1/2) (selectPart ''P-001'' demo_manager))) = Some ''P-001'' \<and>
   map (isSelected \<circ> snd) (partsMap (snd (createSectionPlane ''P-001'' ''XY'' (1/2) (selectPart ''P-001'' demo_manager)))) = [True, False] \<and>
   selectedPart (selectPart ''P-999''
      (snd (createSectionPlane ''P-001'' ''XY'' (1/2) (selectPart ''P-001'' demo_manager)))) = Some ''P-999'' \<and>
   map (isSelected \<circ> snd) (partsMap (selectPart ''P-999''
      (snd (createSectionPlane ''P-001'' ''XY'' (1/2) (selectPart ''P-001'' demo_manager))))) = [False, False]"
  by code_simp

text \<open>
  C7, as the code has it. In a registry (keys unique, as in a \<^verbatim>\<open>Map\<close>),
  \<^verbatim>\<open>isolatePart\<close> followed by \<^verbatim>\<open>showAllParts\<close> gives every registered part the
  hidden flag it had before, and makes its mesh visible exactly when that flag is not
  set. The visibility of the mesh is thus the one it had before exactly when it agreed
  with the flag before.
\<close>

theorem isolate_showAll_roundtrip:
  assumes "distinct (map fst (partsMap s))"
    and "map_of (partsMap s) k = Some p"
    and "map_of (partMeshes s) k = Some m"
  shows "\<exists>p' m'. map_of (partsMap (showAllParts (isolatePart a s))) k = Some p' \<and>
                 map_of (partMeshes (showAllParts (isolatePart a s))) k = Some m' \<and>
                 isHidden p' = isHidden p \<and>
                 visible m' = (\<not> isHidden p) \<and>
                 ((visible m' = visible m) = (visible m = (\<not> isHidden p)))"
proof -
  let ?snap = "fold (\<lambda>(k, p) pre. AList.update k (isHidden p) pre) (partsMap s) []"
  let ?s0 = "s\<lparr>preIsolationState := Some ?snap\<rparr>"
  let ?s1 = "isolatePart a s"
  have s1: "?s1 = applyHidden (map (\<lambda>k. (k, k \<noteq> a)) (map fst (partsMap s))) ?s0"
    by (rule isolatePart_applyHidden)
  have pre: "preIsolationState ?s1 = Some ?snap"
    unfolding s1 by (simp add: applyHidden_frame)
  have reg: "registered ?s1 k"
    unfolding s1 using assms(2,3)
    by (simp add: applyHidden_registered raw_update_flags) (simp add: registered_def)
  have s2: "showAllParts ?s1 = applyHidden ?snap ?s1"
    by (simp add: showAllParts_applyHidden pre)
  have look: "map_of (rev ?snap) k = Some (isHidden p)"
    using snapshot_lookup[OF assms(1), of k] assms(2) by (simp add: hiddenFlag_def)
  have h: "hiddenFlag (showAllParts ?s1) k = Some (isHidden p)"
    unfolding s2 by (simp add: applyHidden_hiddenFlag look reg)
  have v: "meshVisible (showAllParts ?s1) k = Some (\<not> isHidden p)"
    unfolding s2 by (simp add: applyHidden_meshVisible look reg)
  from h v show ?thesis by (auto simp: hiddenFlag_def meshVisible_def)
qed

theorem isolate_showAll_roundtrip_witness:
  "distinct (map fst (partsMap (hidePart ''P-002'' demo_manager))) \<and>
   map_option isHidden (map_of (partsMap (hidePart ''P-002'' demo_manager)) ''P-002'') = Some True \<and>
   map_option visible (map_of (partMeshes (hidePart ''P-002'' demo_manager)) ''P-002'') = Some False \<and>
   map_option isHidden (map_of (partsMap (isolatePart ''P-002'' (hidePart ''P-002'' demo_manager))) ''P-002'') = Some False \<and>
   map_option isHidden (map_of (partsMap
      (showAllParts (isolatePart ''P-002'' (hidePart ''P-002'' demo_manager)))) ''P-002'') = Some True \<and>
   map_option visible (map_of (partMeshes
      (showAllParts (isolatePart ''P-002'' (hidePart ''P-002'' demo_manager)))) ''P-002'') = Some False"
proof -
  let ?s = "hidePart ''P-002'' demo_manager"
  have d: "distinct (map fst (partsMap ?s))" by code_simp
  have h: "map_option isHidden (map_of (partsMap ?s) ''P-002'') = Some True"
    and v: "map_option visible (map_of (partMeshes ?s) ''P-002'') = Some False"
    and i: "map_option isHidden (map_of (partsMap (isolatePart ''P-002'' ?s)) ''P-002'') = Some False"
    by code_simp+
  from h obtain p where p: "map_of (partsMap ?s) ''P-002'' = Some p" and hp: "isHidden p" by auto
  from v obtain m where m: "map_of (partMeshes ?s) ''P-002'' = Some m" by auto
  from isolate_showAll_roundtrip[OF d p m, of "''P-002''"] hp d h v i show ?thesis by auto
qed

text \<open>
  The visibility of a mesh that disagreed with its flag is not restored. After
  \<^verbatim>\<open>P-001\<close> is hidden and \<^verbatim>\<open>P-002\<close> is sectioned and unsectioned, the mesh of
  \<^verbatim>\<open>P-001\<close> is visible; isolating \<^verbatim>\<open>P-002\<close> and showing all leaves it
  invisible. In section mode for \<^verbatim>\<open>P-001\<close> the mesh of \<^verbatim>\<open>P-002\<close> is invisible and
  its flag is not set; isolating \<^verbatim>\<open>P-001\<close> and showing all leaves it visible.
\<close>

theorem isolate_showAll_counterexample:
  "map (isHidden \<circ> snd) (partsMap (removeSectionPlane ''P-002''
      (snd (createSectionPlane ''P-002'' ''XY'' 0 (hidePart ''P-001'' demo_manager))))) = [True, False] \<and>
   map (visible \<circ> snd) (partMeshes (removeSectionPlane ''P-002''
      (snd (createSectionPlane ''P-002'' ''XY'' 0 (hidePart ''P-001'' demo_manager))))) = [True, True] \<and>
   map (isHidden \<circ> snd) (partsMap (showAllParts (isolatePart ''P-002'' (removeSectionPlane ''P-002''
      (snd (createSectionPlane ''P-002'' ''XY'' 0 (hidePart ''P-001'' demo_manager))))))) = [True, False] \<and>
   map (visible \<circ> snd) (partMeshes (showAllParts (isolatePart ''P-002'' (removeSectionPlane ''P-002''
      (snd (createSectionPlane ''P-002'' ''XY'' 0 (hidePart ''P-001'' demo_manager))))))) = [False, True] \<and>
   map (isHidden \<circ> snd) (partsMap (snd (createSectionPlane ''P-001'' ''XY'' (1/2) demo_manager)))
     = [False, False] \<and>
   map (visible \<circ> snd) (partMeshes (snd (createSectionPlane ''P-001'' ''XY'' (1/2) demo_manager)))
     = [True, False] \<and>
   map (visible \<circ> snd) (partMeshes (showAllParts (isolatePart ''P-001''
      (snd (createSectionPlane ''P-001'' ''XY'' (1/2) demo_manager))))) = [True, True]"
  by code_simp

text \<open>
  C8, as the code has it. Outside section mode, selection, highlighting, hiding, showing,
  toggling, isolation, show-all, a move of a section plane and the tick keep the hidden
  flag and the visibility of the mesh of every registered part opposite to each other,
  and stay outside section mode. \<^verbatim>\<open>removeSectionPlane\<close>, of any key and in any
  state, makes every mesh visible and leaves the hidden flags as they are.
\<close>

theorem lockstep_outside_section_mode:
  assumes "lockstep s" and "sectionedPartId s = None"
  shows "lockstep (run ops s) \<and> sectionedPartId (run ops s) = None \<and>
         (\<forall>(k, m) \<in> set (partMeshes (removeSectionPlane a s')). visible m) \<and>
         hiddenFlag (removeSectionPlane a s') = hiddenFlag s'"
proof -
  have "lockstep (fold apply_operation ops s) \<and> sectionedPartId (fold apply_operation ops s) = None"
    using assms
  proof (induction ops arbitrary: s)
    case Nil
    then show ?case by simp
  next
    case (Cons x ops)
    have "lockstep (apply_operation x s)"
      using Cons.prems by (rule lockstep_apply_operation)
    moreover have "sectionedPartId (apply_operation x s) = None"
      using Cons.prems(2) apply_operation_frame[of x s] by simp
    ultimately show ?case using Cons.IH by simp
  qed
  then show ?thesis
    using removeSectionPlane_all_visible[of a s'] removeSectionPlane_hiddenFlag[of a s']
    by (simp add: run_def)
qed

theorem lockstep_outside_section_mode_witness:
  "lockstep demo_manager \<and> sectionedPartId demo_manager = None \<and>
   lockstep (run [HidePart ''P-001'', SelectPart ''P-002'', IsolatePart ''P-002'', ShowAllParts,
                  TogglePartVisibility ''P-002'', Update] demo_manager) \<and>
   sectionedPartId (run [HidePart ''P-001'', SelectPart ''P-002'', IsolatePart ''P-002'',
                  ShowAllParts, TogglePartVisibility ''P-002'', Update] demo_manager) = None \<and>
   map (isHidden \<circ> snd) (partsMap (run [HidePart ''P-001'', SelectPart ''P-002'',
                  IsolatePart ''P-002'', ShowAllParts, TogglePartVisibility ''P-002'', Update]
                  demo_manager)) = [True, True] \<and>
   map (visible \<circ> snd) (partMeshes (run [HidePart ''P-001'', SelectPart ''P-002'',
                  IsolatePart ''P-002'', ShowAllParts, TogglePartVisibility ''P-002'', Update]
                  demo_manager)) = [False, False] \<and>
   map (visible \<circ> snd) (partMeshes (removeSectionPlane ''P-002''
      (snd (createSectionPlane ''P-002'' ''XY'' 0 (hidePart ''P-001'' demo_manager))))) = [True, True] \<and>
   hiddenFlag (removeSectionPlane ''P-002''
      (snd (createSectionPlane ''P-002'' ''XY'' 0 (hidePart ''P-001'' demo_manager)))) =
   hiddenFlag (snd (createSectionPlane ''P-002'' ''XY'' 0 (hidePart ''P-001'' demo_manager)))"
proof -
  have n: "sectionedPartId demo_manager = None" by code_simp
  note T = lockstep_outside_section_mode[OF lockstep_demo n,
      of "[HidePart ''P-001'', SelectPart ''P-002'', IsolatePart ''P-002'', ShowAllParts,
           TogglePartVisibility ''P-002'', Update]" "''P-002''"
         "snd (createSectionPlane ''P-002'' ''XY'' 0 (hidePart ''P-001'' demo_manager))"]
  have c: "map (isHidden \<circ> snd) (partsMap (run [HidePart ''P-001'', SelectPart ''P-002'',
                  IsolatePart ''P-002'', ShowAllParts, TogglePartVisibility ''P-002'', Update]
                  demo_manager)) = [True, True]"
    "map (visible \<circ> snd) (partMeshes (run [HidePart ''P-001'', SelectPart ''P-002'',
                  IsolatePart ''P-002'', ShowAllParts, TogglePartVisibility ''P-002'', Update]
                  demo_manager)) = [False, False]"
    "map (visible \<circ> snd) (partMeshes (removeSectionPlane ''P-002''
      (snd (createSectionPlane ''P-002'' ''XY'' 0 (hidePart ''P-001'' demo_manager))))) = [True, True]"
    by code_simp+
  from T lockstep_demo n c show ?thesis by blast
qed

text \<open>
  Leaving section mode breaks the agreement: \<^verbatim>\<open>removeSectionPlane\<close> makes every mesh
  visible and does not touch the hidden flags. After \<^verbatim>\<open>P-001\<close> is hidden and
  \<^verbatim>\<open>P-002\<close> is sectioned and unsectioned, \<^verbatim>\<open>P-001\<close> is flagged hidden and its mesh
  is visible, outside section mode.
\<close>

theorem lockstep_counterexample:
  "sectionedPartId (removeSectionPlane ''P-002''
      (snd (createSectionPlane ''P-002'' ''XY'' 0 (hidePart ''P-001'' demo_manager)))) = None \<and>
   map_option isHidden (map_of (partsMap (removeSectionPlane ''P-002''
      (snd (createSectionPlane ''P-002'' ''XY'' 0 (hidePart ''P-001'' demo_manager))))) ''P-001'')
     = Some True \<and>
   map_option visible (map_of (partMeshes (removeSectionPlane ''P-002''
      (snd (createSectionPlane ''P-002'' ''XY'' 0 (hidePart ''P-001'' demo_manager))))) ''P-001'')
     = Some True"
  by code_simp

end
